theory Spec2Isabelle
  imports Main "HOL-Library.AList"
begin

section \<open>PlateCore session engine: a shallow embedding of core.py\<close>

text \<open>
  The embedding follows \<^verbatim>\<open>src/core.py\<close>. Conventions:
  \<^item> a Python string is a \<^typ>\<open>string\<close>; the string methods are modelled on ASCII text;
  \<^item> a JSON object holding an entity (a profile, a task, a history entry, the header of a
    project) is a map from field names to values, so that equality is Python's \<^verbatim>\<open>==\<close> on
    dicts and \<^verbatim>\<open>d.update(e)\<close> is \<open>d ++ e\<close>;
  \<^item> a collection keyed by id (profiles, logs, projects, the task map built by the import) is
    an association list in insertion order, as a Python dict iterates;
  \<^item> the files are fields of the \<open>world\<close>, together with the lines still to be read from
    the terminal, the error messages printed so far and the clock;
  \<^item> an exception is a value: a handler returns \<open>Raised\<close> with the state at the raise.
  Informational output (\<^verbatim>\<open>pause_print\<close>, \<^verbatim>\<open>print\<close>), colours, the screen and the
  \<^verbatim>\<open>log_dates\<close> display cache are not modelled; \<^verbatim>\<open>print_error\<close> is.
\<close>

subsection \<open>Python string methods\<close>

definition is_space :: "char \<Rightarrow> bool" where
  "is_space c = (c \<in> set [CHR 0x09, CHR 0x0A, CHR 0x0B, CHR 0x0C, CHR 0x0D,
                            CHR 0x1C, CHR 0x1D, CHR 0x1E, CHR 0x1F, CHR '' ''])"

definition upper_letters :: string where
  "upper_letters = ''ABCDEFGHIJKLMNOPQRSTUVWXYZ''"

definition lower_letters :: string where
  "lower_letters = ''abcdefghijklmnopqrstuvwxyz''"

definition lower_char :: "char \<Rightarrow> char" where
  "lower_char c = (case map_of (zip upper_letters lower_letters) c of Some d \<Rightarrow> d | None \<Rightarrow> c)"

definition upper_char :: "char \<Rightarrow> char" where
  "upper_char c = (case map_of (zip lower_letters upper_letters) c of Some d \<Rightarrow> d | None \<Rightarrow> c)"

text \<open>\<^verbatim>\<open>s.lower()\<close>, \<^verbatim>\<open>s.upper()\<close>, \<^verbatim>\<open>s.strip()\<close>.\<close>

definition py_lower :: "string \<Rightarrow> string" where
  "py_lower s = map lower_char s"

definition py_upper :: "string \<Rightarrow> string" where
  "py_upper s = map upper_char s"

definition py_strip :: "string \<Rightarrow> string" where
  "py_strip s = rev (dropWhile is_space (rev (dropWhile is_space s)))"

text \<open>\<^verbatim>\<open>s.title()\<close>: a letter is upper-cased after an uncased character and lower-cased
  after a cased one.\<close>

fun title_from :: "bool \<Rightarrow> string \<Rightarrow> string" where
  "title_from prev [] = []"
| "title_from prev (c # cs) =
     (if c \<in> set lower_letters then (if prev then c else upper_char c) # title_from True cs
      else if c \<in> set upper_letters then (if prev then lower_char c else c) # title_from True cs
      else c # title_from False cs)"

definition py_title :: "string \<Rightarrow> string" where
  "py_title s = title_from False s"

text \<open>\<^verbatim>\<open>s.split(" ", n)\<close>: at most \<open>n\<close> cuts, each at one space character.\<close>

fun py_split :: "nat \<Rightarrow> string \<Rightarrow> string list" where
  "py_split 0 s = [s]"
| "py_split (Suc n) s =
     (if CHR '' '' \<in> set s
      then takeWhile (\<lambda>c. c \<noteq> CHR '' '') s
             # py_split n (tl (dropWhile (\<lambda>c. c \<noteq> CHR '' '') s))
      else [s])"

text \<open>\<^verbatim>\<open>sub in s\<close> on strings, and \<^verbatim>\<open>s.split(sep)[0]\<close> for a non-empty separator.\<close>

fun is_prefix :: "string \<Rightarrow> string \<Rightarrow> bool" where
  "is_prefix [] s = True"
| "is_prefix (x # xs) [] = False"
| "is_prefix (x # xs) (y # ys) = (x = y \<and> is_prefix xs ys)"

fun contains :: "string \<Rightarrow> string \<Rightarrow> bool" where
  "contains sub [] = (sub = [])"
| "contains sub (c # cs) = (is_prefix sub (c # cs) \<or> contains sub cs)"

fun before_sep :: "string \<Rightarrow> string \<Rightarrow> string" where
  "before_sep sep [] = []"
| "before_sep sep (c # cs) = (if is_prefix sep (c # cs) then [] else c # before_sep sep cs)"

text \<open>\<^verbatim>\<open>s.replace('T-', '')\<close>.\<close>

fun drop_T_dash :: "string \<Rightarrow> string" where
  "drop_T_dash (a # b # cs) =
     (if a = CHR ''T'' \<and> b = CHR ''-'' then drop_T_dash cs else a # drop_T_dash (b # cs))"
| "drop_T_dash cs = cs"

text \<open>Decimal digits: \<^verbatim>\<open>s.isdigit()\<close>, \<^verbatim>\<open>int(s)\<close> and \<^verbatim>\<open>str(n)\<close>.\<close>

definition digit_chars :: string where
  "digit_chars = ''0123456789''"

definition is_digit :: "char \<Rightarrow> bool" where
  "is_digit c = (c \<in> set digit_chars)"

definition digit_val :: "char \<Rightarrow> int" where
  "digit_val c = (case map_of (zip digit_chars [0, 1, 2, 3, 4, 5, 6, 7, 8, 9]) c of
                    Some d \<Rightarrow> d | None \<Rightarrow> 0)"

definition py_isdigit :: "string \<Rightarrow> bool" where
  "py_isdigit s = (s \<noteq> [] \<and> list_all is_digit s)"

text \<open>The digits of \<^verbatim>\<open>int(s)\<close> after the sign: one digit, then digits with at most one
  underscore between two of them. \<open>None\<close> is \<^verbatim>\<open>ValueError\<close>.\<close>

fun digits_value :: "int \<Rightarrow> string \<Rightarrow> int option" where
  "digits_value acc [] = Some acc"
| "digits_value acc [c] = (if is_digit c then Some (10 * acc + digit_val c) else None)"
| "digits_value acc (c # d # cs) =
     (if is_digit c then digits_value (10 * acc + digit_val c) (d # cs)
      else if c = CHR ''_'' \<and> is_digit d then digits_value acc (d # cs)
      else None)"

definition unsigned_value :: "string \<Rightarrow> int option" where
  "unsigned_value s =
     (case s of [] \<Rightarrow> None
      | c # cs \<Rightarrow> if is_digit c then digits_value (digit_val c) cs else None)"

definition py_int :: "string \<Rightarrow> int option" where
  "py_int s =
     (case py_strip s of [] \<Rightarrow> None
      | c # cs \<Rightarrow>
          if c = CHR ''-'' then map_option uminus (unsigned_value cs)
          else if c = CHR ''+'' then unsigned_value cs
          else unsigned_value (c # cs))"

function str_nat :: "nat \<Rightarrow> string" where
  "str_nat n = (if n < 10 then [digit_chars ! n]
                else str_nat (n div 10) @ [digit_chars ! (n mod 10)])"
  by pat_completeness auto
termination
  by (relation "measure id") auto

definition py_str :: "int \<Rightarrow> string" where
  "py_str i = (if i < 0 then CHR ''-'' # str_nat (nat (- i)) else str_nat (nat i))"

text \<open>The em dash that separates the date from the text of a log line, as UTF-8 bytes.\<close>

definition em_dash :: string where
  "em_dash = [CHR 0xE2, CHR 0x80, CHR 0x94]"

subsection \<open>Data model\<close>

datatype val = Str string | Num int

type_synonym pydict = "string \<rightharpoonup> val"

text \<open>Python truthiness of \<^verbatim>\<open>d.get(k)\<close>: \<^verbatim>\<open>None\<close>, the empty string and zero are false.\<close>

fun truthy :: "val option \<Rightarrow> bool" where
  "truthy None = False"
| "truthy (Some (Str s)) = (s \<noteq> [])"
| "truthy (Some (Num n)) = (n \<noteq> 0)"

type_synonym task = pydict
type_synonym profile = pydict

text \<open>A project is a dict with scalar header fields and, under \<^verbatim>\<open>"Tasks"\<close>, a list of
  tasks; \<open>Tasks\<close> is \<open>None\<close> when the key is absent.\<close>

record project =
  hdr :: pydict
  Tasks :: "task list option"

record snapshot =
  snap_profiles :: "(string \<times> profile) list"
  snap_logs :: "(string \<times> string list) list"
  snap_projects :: "(string \<times> project) list"
  snap_history :: "pydict list"

datatype 'a stored = Missing | Corrupt | Content 'a

datatype exn = EOFError | IOError | ValueError | KeyError | AttributeError

text \<open>The calls of \<^verbatim>\<open>print_error\<close>, by kind, with the text they interpolate.\<close>

datatype msg =
    NeedsPrivileges string
  | AccessDenied
  | Usage string
  | Invalid string
  | NotFound string string
  | AlreadyExists string string
  | Cancelled string
  | CorruptFile string
  | WriteFailed string
  | ImportFailed exn
  | NotRecognized string
  | Unexpected exn

text \<open>
  The world outside the process. The five stores are typed by what they hold; the logs
  store is held after the key coercion of \<^verbatim>\<open>load_logs\<close> (integer keys). \<open>user_files\<close> are
  the files named at a prompt (import sources and export targets), assumed distinct from
  the five stores. A path in \<open>readonly\<close> raises \<^verbatim>\<open>IOError\<close> when opened for writing.
  \<open>now\<close> and \<open>today\<close> are the clock as \<^verbatim>\<open>'%Y-%m-%d %H:%M:%S %Z%z'\<close> and as
  \<^verbatim>\<open>'%B %d, %Y'\<close>, read as constant while one command runs.
\<close>

record world =
  stdin :: "string list"
  errors :: "msg list"
  now :: string
  today :: string
  session_txt :: "string option"
  profiles_json :: "(string \<times> profile) list stored"
  logs_json :: "(int \<times> string list) list stored"
  projects_json :: "(string \<times> project) list stored"
  history_json :: "pydict list stored"
  user_files :: "string \<Rightarrow> snapshot stored"
  readonly :: "string set"

text \<open>The globals and the locals of \<^verbatim>\<open>main\<close>.\<close>

record state =
  current_platecore_id :: "string option"
  current_session_start_time :: string
  stories :: "(int \<times> string list) list"
  profiles :: "(string \<times> profile) list"
  projects :: "(string \<times> project) list"

datatype 'a io = Done 'a world | Fail exn world

datatype hres =
    Next state world
  | Return state world
  | Exec state world
  | Raised exn state world

definition SESSION_FILE :: string where "SESSION_FILE = ''session.txt''"
definition PROFILES_FILE :: string where "PROFILES_FILE = ''profiles.json''"
definition LOGS_FILE :: string where "LOGS_FILE = ''logs.json''"
definition SESSION_HISTORY_FILE :: string where "SESSION_HISTORY_FILE = ''session_history.json''"
definition PROJECTS_FILE :: string where "PROJECTS_FILE = ''projects.json''"

subsection \<open>Utility functions\<close>

definition print_error :: "msg \<Rightarrow> world \<Rightarrow> world" where
  "print_error m w = w\<lparr>errors := errors w @ [m]\<rparr>"

text \<open>\<^verbatim>\<open>prompt_input\<close> and \<^verbatim>\<open>prompt_getpass\<close>: the next line, or \<^verbatim>\<open>EOFError\<close>.\<close>

definition reading :: "state \<Rightarrow> world \<Rightarrow> (string \<Rightarrow> world \<Rightarrow> hres) \<Rightarrow> hres" where
  "reading s w k =
     (case stdin w of [] \<Rightarrow> Raised EOFError s w | l # ls \<Rightarrow> k l (w\<lparr>stdin := ls\<rparr>))"

definition logged_in :: "state \<Rightarrow> bool" where
  "logged_in s = (case current_platecore_id s of None \<Rightarrow> False | Some u \<Rightarrow> u \<noteq> [])"

definition get_logged_in_user :: "world \<Rightarrow> string option" where
  "get_logged_in_user w = map_option py_strip (session_txt w)"

definition clear_session :: "state \<Rightarrow> world \<Rightarrow> state \<times> world" where
  "clear_session s w = (s\<lparr>current_platecore_id := None\<rparr>, w\<lparr>session_txt := None\<rparr>)"

text \<open>\<^verbatim>\<open>load_json_file\<close>: the default for a missing file, the default and a message for a
  file that does not parse.\<close>

definition load_json_file :: "string \<Rightarrow> 'a stored \<Rightarrow> 'a \<Rightarrow> world \<Rightarrow> 'a \<times> world" where
  "load_json_file filepath f default_data w =
     (case f of Missing \<Rightarrow> (default_data, w)
      | Corrupt \<Rightarrow> (default_data, print_error (CorruptFile filepath) w)
      | Content d \<Rightarrow> (d, w))"

definition load_profiles :: "world \<Rightarrow> (string \<times> profile) list \<times> world" where
  "load_profiles w = load_json_file PROFILES_FILE (profiles_json w) [] w"

definition load_logs :: "world \<Rightarrow> (int \<times> string list) list \<times> world" where
  "load_logs w = load_json_file LOGS_FILE (logs_json w) [] w"

definition load_projects :: "world \<Rightarrow> (string \<times> project) list \<times> world" where
  "load_projects w = load_json_file PROJECTS_FILE (projects_json w) [] w"

definition load_session_history :: "world \<Rightarrow> pydict list \<times> world" where
  "load_session_history w = load_json_file SESSION_HISTORY_FILE (history_json w) [] w"

text \<open>\<^verbatim>\<open>save_json_file\<close>: on a failed write the message is printed and the error raised
  again.\<close>

definition save_json_file :: "string \<Rightarrow> (world \<Rightarrow> world) \<Rightarrow> world \<Rightarrow> unit io" where
  "save_json_file filepath store w =
     (if filepath \<in> readonly w then Fail IOError (print_error (WriteFailed filepath) w)
      else Done () (store w))"

definition save_profiles :: "(string \<times> profile) list \<Rightarrow> world \<Rightarrow> unit io" where
  "save_profiles d w = save_json_file PROFILES_FILE (\<lambda>w. w\<lparr>profiles_json := Content d\<rparr>) w"

definition save_logs :: "(int \<times> string list) list \<Rightarrow> world \<Rightarrow> unit io" where
  "save_logs d w = save_json_file LOGS_FILE (\<lambda>w. w\<lparr>logs_json := Content d\<rparr>) w"

definition save_projects :: "(string \<times> project) list \<Rightarrow> world \<Rightarrow> unit io" where
  "save_projects d w = save_json_file PROJECTS_FILE (\<lambda>w. w\<lparr>projects_json := Content d\<rparr>) w"

definition save_session_history :: "pydict list \<Rightarrow> world \<Rightarrow> unit io" where
  "save_session_history d w =
     save_json_file SESSION_HISTORY_FILE (\<lambda>w. w\<lparr>history_json := Content d\<rparr>) w"

text \<open>\<^verbatim>\<open>save_...(d)\<close> as the last statement of a handler that then goes on to the next
  prompt.\<close>

definition saved :: "state \<Rightarrow> unit io \<Rightarrow> hres" where
  "saved s r = (case r of Done u w \<Rightarrow> Next s w | Fail e w \<Rightarrow> Raised e s w)"

subsection \<open>Session history\<close>

definition new_entry :: "world \<Rightarrow> string \<Rightarrow> string \<Rightarrow> string \<Rightarrow> string option \<Rightarrow> pydict" where
  "new_entry w user_id event_type start_time end_time =
     [''timestamp'' \<mapsto> Str (now w),
      ''user_id'' \<mapsto> Str user_id,
      ''event_type'' \<mapsto> Str event_type,
      ''session_start'' \<mapsto> Str start_time,
      ''session_end'' \<mapsto> Str (case end_time of None \<Rightarrow> ''N/A'' | Some e \<Rightarrow> e)]"

definition record_session_event ::
  "string \<Rightarrow> string \<Rightarrow> string \<Rightarrow> string option \<Rightarrow> world \<Rightarrow> unit io" where
  "record_session_event user_id event_type start_time end_time w =
     (case load_session_history w of
        (history, w1) \<Rightarrow>
          save_session_history
            (history @ [new_entry w user_id event_type start_time end_time]) w1)"

text \<open>\<^verbatim>\<open>current_platecore_id if current_platecore_id else "UNKNOWN"\<close>.\<close>

definition id_or_unknown :: "state \<Rightarrow> string" where
  "id_or_unknown s = (case current_platecore_id s of None \<Rightarrow> ''UNKNOWN''
                      | Some u \<Rightarrow> if u \<noteq> [] then u else ''UNKNOWN'')"

definition current_id :: "state \<Rightarrow> string" where
  "current_id s = (case current_platecore_id s of None \<Rightarrow> [] | Some u \<Rightarrow> u)"

subsection \<open>Session commands\<close>

text \<open>\<^verbatim>\<open>login\<close>: \<^verbatim>\<open>mark_logged_in\<close> sets the global before it opens the session file.\<close>

definition login_command :: "state \<Rightarrow> world \<Rightarrow> hres" where
  "login_command s w =
     (if logged_in s then Next s w
      else reading s w (\<lambda>platecore_id_input w.
           reading s w (\<lambda>password_input w.
             if platecore_id_input = ''demoplate'' \<and> password_input = ''245225''
             then (let s1 = s\<lparr>current_platecore_id := Some platecore_id_input\<rparr> in
                   if SESSION_FILE \<in> readonly w then Raised IOError s1 w
                   else (let w1 = w\<lparr>session_txt := Some platecore_id_input\<rparr>;
                             s2 = s1\<lparr>current_session_start_time := now w1\<rparr>
                         in saved s2 (record_session_event platecore_id_input ''Login Success''
                                        (current_session_start_time s2) None w1)))
             else saved s (record_session_event
                             (if platecore_id_input \<noteq> [] then platecore_id_input else ''UNKNOWN'')
                             ''Login Denied'' (now w) (Some (now w))
                             (print_error AccessDenied w)))))"

definition logout_command :: "state \<Rightarrow> world \<Rightarrow> hres" where
  "logout_command s w =
     (if logged_in s
      then (case record_session_event (current_id s) ''Logout''
                   (current_session_start_time s) (Some (now w)) w of
              Fail e w1 \<Rightarrow> Raised e s w1
            | Done u w1 \<Rightarrow> (case clear_session s w1 of (s2, w2) \<Rightarrow> Next s2 w2))
      else Next s w)"

definition exit_command :: "state \<Rightarrow> world \<Rightarrow> hres" where
  "exit_command s w =
     (case record_session_event (id_or_unknown s) ''Exit''
             (current_session_start_time s) (Some (now w)) w of
        Fail e w1 \<Rightarrow> Raised e s w1
      | Done u w1 \<Rightarrow> (case clear_session s w1 of (s2, w2) \<Rightarrow> Return s2 w2))"

definition restart_command :: "state \<Rightarrow> world \<Rightarrow> hres" where
  "restart_command s w =
     (case record_session_event (id_or_unknown s) ''Restart''
             (current_session_start_time s) (Some (now w)) w of
        Fail e w1 \<Rightarrow> Raised e s w1
      | Done u w1 \<Rightarrow> (case clear_session s w1 of (s2, w2) \<Rightarrow> Exec s2 w2))"

definition who_am_i_command :: "state \<Rightarrow> world \<Rightarrow> hres" where
  "who_am_i_command s w =
     Next (if logged_in s then s else s\<lparr>current_platecore_id := get_logged_in_user w\<rparr>) w"

definition show_session_history :: "state \<Rightarrow> world \<Rightarrow> hres" where
  "show_session_history s w = Next s (snd (load_session_history w))"

definition help_categories :: "string list" where
  "help_categories = [''journal'', ''profiles'', ''projects'', ''system'', ''customization'']"

definition show_help :: "state \<Rightarrow> world \<Rightarrow> string \<Rightarrow> hres" where
  "show_help s w category =
     (if category \<noteq> [] \<and> py_lower category \<notin> set help_categories
      then Next s (print_error (Invalid ''help category'') w)
      else Next s w)"

subsection \<open>Journal commands\<close>

text \<open>The lines of an entry up to the line \<^verbatim>\<open>END\<close>, and the lines left; \<open>None\<close> when the
  input ends first.\<close>

fun read_entry :: "string list \<Rightarrow> (string list \<times> string list) option" where
  "read_entry [] = None"
| "read_entry (l # ls) =
     (if py_upper (py_strip l) = ''END'' then Some ([], ls)
      else map_option (\<lambda>(entry_lines, rest). (py_strip l # entry_lines, rest)) (read_entry ls))"

text \<open>\<^verbatim>\<open>max(stories.keys()) + 1 if stories else 1\<close>.\<close>

definition next_id :: "(int \<times> string list) list \<Rightarrow> int" where
  "next_id logs = (if logs \<noteq> [] then Max (set (map fst logs)) + 1 else 1)"

definition dated :: "string \<Rightarrow> string \<Rightarrow> string" where
  "dated date_part line = date_part @ '' '' @ em_dash @ '' '' @ line"

definition logbook_command :: "state \<Rightarrow> world \<Rightarrow> string \<Rightarrow> hres" where
  "logbook_command s w arg =
     (if arg = [] then Next s (print_error (Usage ''logbook <ID>'') w)
      else case py_int arg of
             None \<Rightarrow> Next s (print_error (Invalid ''logbook ID'') w)
           | Some logbook_id \<Rightarrow>
               if logbook_id \<in> fst ` set (stories s) then Next s w
               else Next s (print_error (NotFound ''logbook'' arg) w))"

definition newlog_command :: "state \<Rightarrow> world \<Rightarrow> hres" where
  "newlog_command s w =
     (case read_entry (stdin w) of
        None \<Rightarrow> Raised EOFError s (w\<lparr>stdin := []\<rparr>)
      | Some (entry_lines, rest) \<Rightarrow>
          (case entry_lines of
             [] \<Rightarrow> Next s (print_error (Cancelled ''newlog'') (w\<lparr>stdin := rest\<rparr>))
           | first_line # others \<Rightarrow>
               (let entry = (if \<not> contains em_dash first_line
                             then dated (today w) first_line # others
                             else first_line # others);
                    s1 = s\<lparr>stories := AList.update (next_id (stories s)) entry (stories s)\<rparr>
                in saved s1 (save_logs (stories s1) (w\<lparr>stdin := rest\<rparr>)))))"

definition date_keywords :: "string list" where
  "date_keywords = [''Jan'', ''Feb'', ''Mar'', ''Apr'', ''May'', ''Jun'', ''Jul'', ''Aug'',
                    ''Sep'', ''Oct'', ''Nov'', ''Dec'', em_dash]"

definition edited_first_line :: "string \<Rightarrow> string list \<Rightarrow> string \<Rightarrow> string" where
  "edited_first_line today_str original new_first =
     (case original of
        [] \<Rightarrow> dated today_str new_first
      | original_first_line # others \<Rightarrow>
          if contains em_dash original_first_line
          then (if \<not> list_ex (\<lambda>keyword. contains keyword new_first) date_keywords
                then dated (py_strip (before_sep em_dash original_first_line)) new_first
                else new_first)
          else dated today_str new_first)"

definition editlog_command :: "state \<Rightarrow> world \<Rightarrow> string \<Rightarrow> hres" where
  "editlog_command s w arg =
     (if arg = [] then Next s (print_error (Usage ''editlog <ID>'') w)
      else case py_int arg of
        None \<Rightarrow> Next s (print_error (Invalid ''log ID'') w)
      | Some log_id_to_edit \<Rightarrow>
          (case map_of (stories s) log_id_to_edit of
             None \<Rightarrow> Next s (print_error (NotFound ''logbook'' arg) w)
           | Some original \<Rightarrow>
               (case read_entry (stdin w) of
                  None \<Rightarrow> Raised EOFError s (w\<lparr>stdin := []\<rparr>)
                | Some (new_entry_lines, rest) \<Rightarrow>
                    (case new_entry_lines of
                       [] \<Rightarrow> Next s (print_error (Cancelled ''editlog'') (w\<lparr>stdin := rest\<rparr>))
                     | new_first # others \<Rightarrow>
                         (let entry = edited_first_line (today w) original new_first # others;
                              s1 = s\<lparr>stories := AList.update log_id_to_edit entry (stories s)\<rparr>
                          in saved s1 (save_logs (stories s1) (w\<lparr>stdin := rest\<rparr>)))))))"

definition deletelog_command :: "state \<Rightarrow> world \<Rightarrow> string \<Rightarrow> hres" where
  "deletelog_command s w arg =
     (if arg = [] then Next s (print_error (Usage ''deletelog <ID>'') w)
      else case py_int arg of
        None \<Rightarrow> Next s (print_error (Invalid ''log ID'') w)
      | Some log_id_to_delete \<Rightarrow>
          if log_id_to_delete \<in> fst ` set (stories s)
          then reading s w (\<lambda>l w.
                 if py_strip l = py_str log_id_to_delete
                 then (let s1 = s\<lparr>stories := AList.delete log_id_to_delete (stories s)\<rparr>
                       in saved s1 (save_logs (stories s1) w))
                 else Next s w)
          else Next s (print_error (NotFound ''logbook'' arg) w))"

text \<open>\<^verbatim>\<open>exportlogs\<close> writes text, which is not a snapshot that parses.\<close>

definition exportlogs_command :: "state \<Rightarrow> world \<Rightarrow> hres" where
  "exportlogs_command s w =
     (if stories s = [] then Next s w
      else reading s w (\<lambda>l w.
             let export_filename = py_strip l in
             if export_filename = [] then Next s (print_error (Cancelled ''exportlogs'') w)
             else if export_filename \<in> readonly w
             then Next s (print_error (WriteFailed export_filename) w)
             else Next s (w\<lparr>user_files := (user_files w)(export_filename := Corrupt)\<rparr>)))"

subsection \<open>Profile commands\<close>

definition or_na :: "string \<Rightarrow> string" where
  "or_na x = (if x \<noteq> [] then x else ''N/A'')"

text \<open>One prompt of an edit: \<^verbatim>\<open>new_value = prompt_input(...).strip()\<close>, then
  \<^verbatim>\<open>if new_value: d[key] = new_value\<close>.\<close>

definition edit_field :: "string \<Rightarrow> string \<Rightarrow> pydict \<Rightarrow> pydict" where
  "edit_field key answer d =
     (let new_value = py_strip answer in if new_value \<noteq> [] then d(key \<mapsto> Str new_value) else d)"

text \<open>The prompt for the CB number: an answer that is not a number leaves the field and
  prints a message.\<close>

definition edit_cb :: "string \<Rightarrow> pydict \<Rightarrow> world \<Rightarrow> pydict \<times> world" where
  "edit_cb answer d w =
     (let new_cb_input = py_strip answer in
      if new_cb_input \<noteq> []
      then (case py_int new_cb_input of
              Some n \<Rightarrow> (d(''CB'' \<mapsto> Num n), w)
            | None \<Rightarrow> (d, print_error (Invalid ''CB'') w))
      else (d, w))"

definition set_profile :: "string \<Rightarrow> profile \<Rightarrow> state \<Rightarrow> state" where
  "set_profile pid p s = s\<lparr>profiles := AList.update pid p (profiles s)\<rparr>"

definition profilesview_command :: "state \<Rightarrow> world \<Rightarrow> string \<Rightarrow> hres" where
  "profilesview_command s w arg =
     (let profile_id = py_upper (py_strip arg) in
      if profile_id \<noteq> []
      then (if profile_id \<in> fst ` set (profiles s) then Next s w
            else Next s (print_error (NotFound ''Profile'' profile_id) w))
      else Next s (print_error (Usage ''profilesview <ID>'') w))"

definition profilesadd_command :: "state \<Rightarrow> world \<Rightarrow> hres" where
  "profilesadd_command s w =
     reading s w (\<lambda>l w.
       let new_id = py_upper (py_strip l) in
       if new_id = [] then Next s (print_error (Invalid ''Profile ID'') w)
       else if new_id \<in> fst ` set (profiles s)
       then Next s (print_error (AlreadyExists ''Profile'' new_id) w)
       else reading s w (\<lambda>l_name w. reading s w (\<lambda>l_role w.
            reading s w (\<lambda>l_ic w. reading s w (\<lambda>l_pn w. reading s w (\<lambda>l_cb w.
              (case edit_cb l_cb [''CB'' \<mapsto> Str ''N/A''] w of
                 (cb, w1) \<Rightarrow>
                   (let p = cb(''Name'' \<mapsto> Str (or_na (py_strip l_name)),
                               ''ID'' \<mapsto> Str new_id,
                               ''Role'' \<mapsto> Str (or_na (py_strip l_role)),
                               ''IC'' \<mapsto> Str (or_na (py_strip l_ic)),
                               ''PN'' \<mapsto> Str (or_na (py_strip l_pn)));
                        s1 = set_profile new_id p s
                    in saved s1 (save_profiles (profiles s1) w1)))))))))"

definition profilesedit_command :: "state \<Rightarrow> world \<Rightarrow> string \<Rightarrow> hres" where
  "profilesedit_command s w arg =
     (let profile_id_to_edit = py_upper (py_strip arg) in
      if profile_id_to_edit \<noteq> []
      then (case map_of (profiles s) profile_id_to_edit of
              None \<Rightarrow> Next s (print_error (NotFound ''Profile'' profile_id_to_edit) w)
            | Some p0 \<Rightarrow>
                reading s w (\<lambda>a1 w.
                  let p1 = edit_field ''Name'' a1 p0; s1 = set_profile profile_id_to_edit p1 s in
                reading s1 w (\<lambda>a2 w.
                  let p2 = edit_field ''Role'' a2 p1; s2 = set_profile profile_id_to_edit p2 s1 in
                reading s2 w (\<lambda>a3 w.
                  let p3 = edit_field ''IC'' a3 p2; s3 = set_profile profile_id_to_edit p3 s2 in
                reading s3 w (\<lambda>a4 w.
                  let p4 = edit_field ''PN'' a4 p3; s4 = set_profile profile_id_to_edit p4 s3 in
                reading s4 w (\<lambda>a5 w.
                  (case edit_cb a5 p4 w of
                     (p5, w5) \<Rightarrow>
                       (let s5 = set_profile profile_id_to_edit p5 s4
                        in saved s5 (save_profiles (profiles s5) w5)))))))))
      else Next s (print_error (Usage ''profilesedit <ID>'') w))"

definition profilesdelete_command :: "state \<Rightarrow> world \<Rightarrow> string \<Rightarrow> hres" where
  "profilesdelete_command s w arg =
     (let profile_id_to_delete = py_upper (py_strip arg) in
      if profile_id_to_delete \<noteq> []
      then (if profile_id_to_delete \<in> fst ` set (profiles s)
            then reading s w (\<lambda>l w.
                   if py_lower l = ''y''
                   then (let s1 = s\<lparr>profiles := AList.delete profile_id_to_delete (profiles s)\<rparr>
                         in saved s1 (save_profiles (profiles s1) w))
                   else Next s w)
            else Next s (print_error (NotFound ''Profile'' profile_id_to_delete) w))
      else Next s (print_error (Usage ''profilesdelete <ID>'') w))"

text \<open>\<^verbatim>\<open>profile_data.get(key, "").lower()\<close>: \<open>None\<close> is the \<^verbatim>\<open>AttributeError\<close> of a
  number. The fields are tried in the order of the \<^verbatim>\<open>or\<close> chain, which stops at the first
  match.\<close>

definition field_lower :: "pydict \<Rightarrow> string \<Rightarrow> string option" where
  "field_lower d key =
     (case d key of None \<Rightarrow> Some [] | Some (Str x) \<Rightarrow> Some (py_lower x) | Some (Num n) \<Rightarrow> None)"

fun search_fields :: "string \<Rightarrow> pydict \<Rightarrow> string list \<Rightarrow> bool option" where
  "search_fields keyword d [] = Some False"
| "search_fields keyword d (key # keys) =
     (case field_lower d key of
        None \<Rightarrow> None
      | Some x \<Rightarrow> if contains keyword x then Some True else search_fields keyword d keys)"

definition searchprofile_command :: "state \<Rightarrow> world \<Rightarrow> string \<Rightarrow> hres" where
  "searchprofile_command s w arg =
     (let search_keyword = py_lower (py_strip arg) in
      if search_keyword = [] then Next s (print_error (Usage ''searchprofile <KEYWORD>'') w)
      else if list_ex (\<lambda>(pid, profile_data).
                 search_fields search_keyword profile_data [''Name'', ''Role'', ''IC'', ''PN'']
                   = None) (profiles s)
      then Raised AttributeError s w
      else Next s w)"

subsection \<open>Project and task commands\<close>

definition tasks_of :: "project \<Rightarrow> task list" where
  "tasks_of proj = (case Tasks proj of None \<Rightarrow> [] | Some ts \<Rightarrow> ts)"

definition set_project :: "string \<Rightarrow> project \<Rightarrow> state \<Rightarrow> state" where
  "set_project pid p s = s\<lparr>projects := AList.update pid p (projects s)\<rparr>"

definition project_view_command :: "state \<Rightarrow> world \<Rightarrow> string \<Rightarrow> hres" where
  "project_view_command s w project_id =
     (if project_id = [] then Next s (print_error (Usage ''projectview <PROJECT_ID>'') w)
      else if py_upper project_id \<in> fst ` set (projects s) then Next s w
      else Next s (print_error (NotFound ''Project'' (py_upper project_id)) w))"

definition project_add_command :: "state \<Rightarrow> world \<Rightarrow> hres" where
  "project_add_command s w =
     reading s w (\<lambda>l w.
       let new_proj_id = py_upper (py_strip l) in
       if new_proj_id = [] then Next s (print_error (Invalid ''Project ID'') w)
       else if new_proj_id \<in> fst ` set (projects s)
       then Next s (print_error (AlreadyExists ''Project'' new_proj_id) w)
       else reading s w (\<lambda>l_name w. reading s w (\<lambda>l_desc w.
            reading s w (\<lambda>l_status w. reading s w (\<lambda>l_due w.
              (let status = (if py_strip l_status \<noteq> [] then py_strip l_status else ''Active'');
                   s1 = set_project new_proj_id
                          \<lparr>hdr = [''Name'' \<mapsto> Str (py_strip l_name),
                                  ''Description'' \<mapsto> Str (py_strip l_desc),
                                  ''Status'' \<mapsto> Str status,
                                  ''DueDate'' \<mapsto> Str (or_na (py_strip l_due))],
                           Tasks = Some []\<rparr> s
               in saved s1 (save_projects (projects s1) w)))))))"

definition set_hdr :: "string \<Rightarrow> project \<Rightarrow> pydict \<Rightarrow> state \<Rightarrow> state" where
  "set_hdr pid proj h s = set_project pid (proj\<lparr>hdr := h\<rparr>) s"

definition project_edit_command :: "state \<Rightarrow> world \<Rightarrow> string \<Rightarrow> hres" where
  "project_edit_command s w project_id =
     (if project_id = [] then Next s (print_error (Usage ''projectedit <PROJECT_ID>'') w)
      else (let proj_id = py_upper project_id in
            case map_of (projects s) proj_id of
              None \<Rightarrow> Next s (print_error (NotFound ''Project'' proj_id) w)
            | Some proj \<Rightarrow>
                reading s w (\<lambda>a1 w.
                  let h1 = edit_field ''Name'' a1 (hdr proj); s1 = set_hdr proj_id proj h1 s in
                reading s1 w (\<lambda>a2 w.
                  let h2 = edit_field ''Description'' a2 h1; s2 = set_hdr proj_id proj h2 s1 in
                reading s2 w (\<lambda>a3 w.
                  let h3 = edit_field ''Status'' a3 h2; s3 = set_hdr proj_id proj h3 s2 in
                reading s3 w (\<lambda>a4 w.
                  let h4 = edit_field ''DueDate'' a4 h3; s4 = set_hdr proj_id proj h4 s3
                  in saved s4 (save_projects (projects s4) w)))))))"

definition project_delete_command :: "state \<Rightarrow> world \<Rightarrow> string \<Rightarrow> hres" where
  "project_delete_command s w project_id =
     (if project_id = [] then Next s (print_error (Usage ''projectdelete <PROJECT_ID>'') w)
      else (let proj_id = py_upper project_id in
            if proj_id \<in> fst ` set (projects s)
            then reading s w (\<lambda>l w.
                   if py_lower l = ''y''
                   then (let s1 = s\<lparr>projects := AList.delete proj_id (projects s)\<rparr>
                         in saved s1 (save_projects (projects s1) w))
                   else Next s w)
            else Next s (print_error (NotFound ''Project'' proj_id) w)))"

text \<open>The highest numeric task id: \<^verbatim>\<open>task.get('TaskID', 'T-0').replace('T-', '')\<close>, counted
  when \<^verbatim>\<open>isdigit()\<close>. \<open>None\<close> is the \<^verbatim>\<open>AttributeError\<close> of a numeric \<^verbatim>\<open>TaskID\<close>.\<close>

fun max_task_id :: "int \<Rightarrow> task list \<Rightarrow> int option" where
  "max_task_id max_id [] = Some max_id"
| "max_task_id max_id (t # ts) =
     (case t ''TaskID'' of
        Some (Num n) \<Rightarrow> None
      | Some (Str x) \<Rightarrow>
          (let tid_str = drop_T_dash x in
           max_task_id (if py_isdigit tid_str
                        then (case py_int tid_str of Some n \<Rightarrow> max max_id n | None \<Rightarrow> max_id)
                        else max_id) ts)
      | None \<Rightarrow> max_task_id (max max_id 0) ts)"

definition next_task_id :: "task list \<Rightarrow> int option" where
  "next_task_id tasks =
     (if tasks \<noteq> [] then map_option (\<lambda>max_id. max_id + 1) (max_task_id 0 tasks) else Some 1)"

definition task_add_command :: "state \<Rightarrow> world \<Rightarrow> string \<Rightarrow> hres" where
  "task_add_command s w project_id =
     (if project_id = [] then Next s (print_error (Usage ''taskadd <PROJECT_ID>'') w)
      else (let proj_id = py_upper project_id in
            case map_of (projects s) proj_id of
              None \<Rightarrow> Next s (print_error (NotFound ''Project'' proj_id) w)
            | Some proj \<Rightarrow>
                reading s w (\<lambda>l w.
                  let task_desc = py_strip l in
                  if task_desc = [] then Next s (print_error (Invalid ''Task description'') w)
                  else (case next_task_id (tasks_of proj) of
                          None \<Rightarrow> Raised AttributeError s w
                        | Some n \<Rightarrow>
                            reading s w (\<lambda>l2 w.
                              let answer = py_upper (py_strip l2) in
                              case (if answer \<noteq> [] then load_profiles w else ([], w)) of
                                (known, w1) \<Rightarrow>
                                  (let assigned_to =
                                         (if answer \<noteq> [] \<and> answer \<notin> fst ` set known
                                          then ''Unassigned''
                                          else if answer = [] then ''Unassigned'' else answer);
                                       new_task = [''TaskID'' \<mapsto> Str (''T-'' @ py_str n),
                                                   ''Description'' \<mapsto> Str task_desc,
                                                   ''AssignedTo'' \<mapsto> Str assigned_to,
                                                   ''Status'' \<mapsto> Str ''Pending'']
                                   in case Tasks proj of
                                        None \<Rightarrow> Raised KeyError s w1
                                      | Some ts \<Rightarrow>
                                          (let s1 = set_project proj_id
                                                      (proj\<lparr>Tasks := Some (ts @ [new_task])\<rparr>) s
                                           in saved s1 (save_projects (projects s1) w1))))))))"

text \<open>The loop of \<^verbatim>\<open>task_update_command\<close> stops at the first task with the id.\<close>

fun update_first :: "('a \<Rightarrow> bool) \<Rightarrow> ('a \<Rightarrow> 'a) \<Rightarrow> 'a list \<Rightarrow> 'a list" where
  "update_first P f [] = []"
| "update_first P f (x # xs) = (if P x then f x # xs else x # update_first P f xs)"

definition has_id :: "string \<Rightarrow> task \<Rightarrow> bool" where
  "has_id task_id t = (t ''TaskID'' = Some (Str task_id))"

definition status_values :: "string list" where
  "status_values = [''pending'', ''in progress'', ''complete'']"

text \<open>The assignment \<^verbatim>\<open>task[key] = v\<close> on the task found, then \<^verbatim>\<open>save_projects\<close>.\<close>

definition commit_task ::
  "state \<Rightarrow> world \<Rightarrow> string \<Rightarrow> project \<Rightarrow> string \<Rightarrow> string \<Rightarrow> val \<Rightarrow> hres" where
  "commit_task s w proj_id proj task_id key v =
     (let s1 = set_project proj_id
                 (proj\<lparr>Tasks := Some (update_first (has_id task_id) (\<lambda>t. t(key \<mapsto> v))
                                         (tasks_of proj))\<rparr>) s
      in saved s1 (save_projects (projects s1) w))"

text \<open>\<^verbatim>\<open>value = args[3] if len(args) > 3 else ""\<close>.\<close>

definition arg_value :: "string list \<Rightarrow> string" where
  "arg_value rest = (case rest of [] \<Rightarrow> [] | x # xs \<Rightarrow> x)"

definition task_update_command :: "state \<Rightarrow> world \<Rightarrow> string \<Rightarrow> hres" where
  "task_update_command s w args_str =
     (case py_split 3 args_str of
        proj_id_raw # task_id_raw # update_type_raw # rest \<Rightarrow>
          (let update_type = py_lower update_type_raw;
               v = arg_value rest;
               proj_id = py_upper proj_id_raw;
               task_id = py_upper task_id_raw
           in case map_of (projects s) proj_id of
                None \<Rightarrow> Next s (print_error (NotFound ''Project'' proj_id) w)
              | Some proj \<Rightarrow>
                  if list_ex (has_id task_id) (tasks_of proj)
                  then (if update_type = ''status''
                        then (if py_lower v \<in> set status_values
                              then commit_task s w proj_id proj task_id ''Status''
                                     (Str (py_title v))
                              else Next s (print_error (Invalid ''status'') w))
                        else if update_type = ''assigned''
                        then (if v \<noteq> [] \<and> py_upper v \<notin> fst ` set (profiles s)
                              then commit_task s w proj_id proj task_id ''AssignedTo''
                                     (Str ''Unassigned'')
                              else if v = []
                              then commit_task s w proj_id proj task_id ''AssignedTo''
                                     (Str ''Unassigned'')
                              else commit_task s w proj_id proj task_id ''AssignedTo''
                                     (Str (py_upper v)))
                        else Next s (print_error (Invalid ''update type'') w))
                  else Next s (print_error (NotFound ''Task'' task_id) w))
      | short \<Rightarrow> Next s (print_error (Usage ''taskupdate'') w))"

definition task_delete_command :: "state \<Rightarrow> world \<Rightarrow> string \<Rightarrow> hres" where
  "task_delete_command s w args_str =
     (case py_split 1 args_str of
        proj_id_raw # task_id_raw # rest \<Rightarrow>
          (let proj_id = py_upper proj_id_raw; task_id = py_upper task_id_raw in
           case map_of (projects s) proj_id of
             None \<Rightarrow> Next s (print_error (NotFound ''Project'' proj_id) w)
           | Some proj \<Rightarrow>
               (let tasks = tasks_of proj;
                    kept = filter (\<lambda>t. \<not> has_id task_id t) tasks;
                    s1 = set_project proj_id (proj\<lparr>Tasks := Some kept\<rparr>) s
                in if length kept < length tasks
                   then saved s1 (save_projects (projects s1) w)
                   else Next s1 (print_error (NotFound ''Task'' task_id) w)))
      | short \<Rightarrow> Next s (print_error (Usage ''taskdelete'') w))"

subsection \<open>Export and import\<close>

text \<open>A dict comprehension \<^verbatim>\<open>{key(x): value(x) for x in xs}\<close>: a later element replaces
  the value of an earlier one with the same key, at the earlier one's place.\<close>

definition dict_comp :: "('a \<Rightarrow> 'k \<times> 'v) \<Rightarrow> 'a list \<Rightarrow> ('k \<times> 'v) list" where
  "dict_comp f xs = foldl (\<lambda>d x. AList.update (fst (f x)) (snd (f x)) d) [] xs"

definition export_all_data :: "state \<Rightarrow> world \<Rightarrow> pydict list \<Rightarrow> hres" where
  "export_all_data s w session_history =
     reading s w (\<lambda>l w.
       let export_filename = py_strip l in
       if export_filename = [] then Next s (print_error (Cancelled ''export'') w)
       else if export_filename \<in> readonly w
       then Next s (print_error (WriteFailed export_filename) w)
       else Next s (w\<lparr>user_files := (user_files w)(export_filename := Content
              \<lparr>snap_profiles = profiles s,
               snap_logs = dict_comp (\<lambda>(k, v). (py_str k, v)) (stories s),
               snap_projects = projects s,
               snap_history = session_history\<rparr>)\<rparr>))"

definition exportdata_command :: "state \<Rightarrow> world \<Rightarrow> hres" where
  "exportdata_command s w =
     (case load_session_history w of (history, w1) \<Rightarrow> export_all_data s w1 history)"

text \<open>Profiles and logs: \<^verbatim>\<open>if k in d: skip, else: d[k] = v\<close>.\<close>

definition add_missing :: "('k \<times> 'v) list \<Rightarrow> ('k \<times> 'v) list \<Rightarrow> ('k \<times> 'v) list" where
  "add_missing d imported =
     foldl (\<lambda>d (k, v). if k \<in> fst ` set d then d else AList.update k v d) d imported"

text \<open>\<^verbatim>\<open>{int(k): v for k, v in imported_logs.items()}\<close>; \<open>None\<close> is \<^verbatim>\<open>ValueError\<close>.\<close>

fun int_keys_into :: "(int \<times> 'v) list \<Rightarrow> (string \<times> 'v) list \<Rightarrow> (int \<times> 'v) list option" where
  "int_keys_into acc [] = Some acc"
| "int_keys_into acc ((k, v) # kvs) =
     (case py_int k of None \<Rightarrow> None | Some i \<Rightarrow> int_keys_into (AList.update i v acc) kvs)"

definition task_id_of :: "task \<Rightarrow> val option" where
  "task_id_of t = t ''TaskID''"

text \<open>\<^verbatim>\<open>current_tasks_map = {t.get("TaskID"): t for t in tasks}\<close>, and one turn of the loop
  over the imported tasks.\<close>

definition tasks_map :: "task list \<Rightarrow> (val option \<times> task) list" where
  "tasks_map ts = dict_comp (\<lambda>t. (task_id_of t, t)) ts"

definition merge_task :: "(val option \<times> task) list \<Rightarrow> task \<Rightarrow> (val option \<times> task) list" where
  "merge_task current_tasks_map imported_task =
     (let imported_task_id = task_id_of imported_task in
      case map_of current_tasks_map imported_task_id of
        Some t \<Rightarrow>
          if truthy imported_task_id
          then AList.update imported_task_id (t ++ imported_task) current_tasks_map
          else AList.update imported_task_id imported_task current_tasks_map
      | None \<Rightarrow> AList.update imported_task_id imported_task current_tasks_map)"

definition merge_tasks :: "task list \<Rightarrow> task list \<Rightarrow> task list" where
  "merge_tasks local_tasks imported_tasks =
     map snd (foldl merge_task (tasks_map local_tasks) imported_tasks)"

text \<open>One turn of the loop over the imported projects.\<close>

definition import_project ::
  "(string \<times> project) list \<Rightarrow> string \<times> project \<Rightarrow> (string \<times> project) list" where
  "import_project d imp =
     (case imp of
        (project_id, project_info) \<Rightarrow>
          (case map_of d project_id of
             Some proj \<Rightarrow>
               AList.update project_id
                 (proj\<lparr>Tasks := Some (merge_tasks (tasks_of proj) (tasks_of project_info))\<rparr>) d
           | None \<Rightarrow> AList.update project_id project_info d))"

definition import_projects ::
  "(string \<times> project) list \<Rightarrow> (string \<times> project) list \<Rightarrow> (string \<times> project) list" where
  "import_projects d imported_projects = foldl import_project d imported_projects"

definition import_history :: "pydict list \<Rightarrow> pydict list \<Rightarrow> pydict list" where
  "import_history current imported =
     foldl (\<lambda>h entry. if entry \<notin> set h then h @ [entry] else h) current imported"

text \<open>The body of the \<^verbatim>\<open>try\<close> of \<^verbatim>\<open>import_all_data\<close>, one collection after the other; its
  \<^verbatim>\<open>except Exception\<close> prints a message and returns.\<close>

definition import_caught :: "state \<Rightarrow> exn \<Rightarrow> world \<Rightarrow> hres" where
  "import_caught s e w = Next s (print_error (ImportFailed e) w)"

definition import_session_history :: "snapshot \<Rightarrow> state \<Rightarrow> world \<Rightarrow> hres" where
  "import_session_history imported_data s w =
     (case load_session_history w of
        (current, w1) \<Rightarrow>
          (case save_session_history
                  (import_history current (snap_history imported_data)) w1 of
             Fail e w2 \<Rightarrow> import_caught s e w2
           | Done u w2 \<Rightarrow> Next s w2))"

definition import_projects_step :: "snapshot \<Rightarrow> state \<Rightarrow> world \<Rightarrow> hres" where
  "import_projects_step imported_data s w =
     (let s1 = s\<lparr>projects := import_projects (projects s) (snap_projects imported_data)\<rparr> in
      case save_projects (projects s1) w of
        Fail e w1 \<Rightarrow> import_caught s1 e w1
      | Done u w1 \<Rightarrow> import_session_history imported_data s1 w1)"

definition import_logs_step :: "snapshot \<Rightarrow> state \<Rightarrow> world \<Rightarrow> hres" where
  "import_logs_step imported_data s w =
     (case int_keys_into [] (snap_logs imported_data) of
        None \<Rightarrow> import_caught s ValueError w
      | Some imported_logs_int_keys \<Rightarrow>
          (let s1 = s\<lparr>stories := add_missing (stories s) imported_logs_int_keys\<rparr> in
           case save_logs (stories s1) w of
             Fail e w1 \<Rightarrow> import_caught s1 e w1
           | Done u w1 \<Rightarrow> import_projects_step imported_data s1 w1))"

definition import_profiles_step :: "snapshot \<Rightarrow> state \<Rightarrow> world \<Rightarrow> hres" where
  "import_profiles_step imported_data s w =
     (let s1 = s\<lparr>profiles := add_missing (profiles s) (snap_profiles imported_data)\<rparr> in
      case save_profiles (profiles s1) w of
        Fail e w1 \<Rightarrow> import_caught s1 e w1
      | Done u w1 \<Rightarrow> import_logs_step imported_data s1 w1)"

definition import_all_data :: "state \<Rightarrow> world \<Rightarrow> hres" where
  "import_all_data s w =
     reading s w (\<lambda>l w.
       let import_filename = py_strip l in
       if import_filename = [] then Next s (print_error (Cancelled ''import'') w)
       else (case user_files w import_filename of
               Missing \<Rightarrow> Next s (print_error (NotFound ''File'' import_filename) w)
             | Corrupt \<Rightarrow> Next s (print_error (CorruptFile import_filename) w)
             | Content imported_data \<Rightarrow> import_profiles_step imported_data s w))"

text \<open>After the import \<^verbatim>\<open>main\<close> loads the three collections again from their files.\<close>

definition reload :: "state \<Rightarrow> world \<Rightarrow> hres" where
  "reload s w =
     (case load_profiles w of
        (p, w1) \<Rightarrow>
          (case load_logs w1 of
             (l, w2) \<Rightarrow>
               (case load_projects w2 of
                  (pr, w3) \<Rightarrow> Next (s\<lparr>profiles := p, stories := l, projects := pr\<rparr>) w3)))"

definition importdata_command :: "state \<Rightarrow> world \<Rightarrow> hres" where
  "importdata_command s w =
     (case import_all_data s w of Next s1 w1 \<Rightarrow> reload s1 w1 | r \<Rightarrow> r)"

subsection \<open>The command loop\<close>

text \<open>\<^verbatim>\<open>command_parts = command_raw.lower().split(" ", 1)\<close>, then the command and the
  argument.\<close>

definition tokenize :: "string \<Rightarrow> string \<times> string" where
  "tokenize command_raw =
     (case py_split 1 (py_lower command_raw) of
        [] \<Rightarrow> ([], [])
      | [base_command] \<Rightarrow> (base_command, [])
      | base_command # arg # rest \<Rightarrow> (base_command, arg))"

definition allowed_guest_commands :: "string list" where
  "allowed_guest_commands =
     [''login'', ''help'', ''clear'', ''exit'', ''hyprctl dispatch exit'', ''importdata'']"

definition first_word :: "string \<Rightarrow> string" where
  "first_word arg = (case py_split 1 arg of [] \<Rightarrow> [] | x # xs \<Rightarrow> x)"

definition dispatch :: "string \<Rightarrow> string \<Rightarrow> string \<Rightarrow> state \<Rightarrow> world \<Rightarrow> hres" where
  "dispatch command_raw base_command arg s w =
     (if base_command = ''login'' then login_command s w
      else if base_command = ''logout'' then logout_command s w
      else if base_command = ''logbook'' then logbook_command s w arg
      else if base_command = ''loglist'' then Next s w
      else if base_command = ''newlog'' then newlog_command s w
      else if base_command = ''editlog'' then editlog_command s w arg
      else if base_command = ''deletelog'' then deletelog_command s w arg
      else if base_command = ''exportlogs'' then exportlogs_command s w
      else if base_command = ''profileslist'' then Next s w
      else if base_command = ''profilesview'' then profilesview_command s w arg
      else if base_command = ''profilesadd'' then profilesadd_command s w
      else if base_command = ''profilesedit'' then profilesedit_command s w arg
      else if base_command = ''profilesdelete'' then profilesdelete_command s w arg
      else if base_command = ''searchprofile'' then searchprofile_command s w arg
      else if base_command = ''projectslist'' then Next s w
      else if base_command = ''projectview'' then project_view_command s w arg
      else if base_command = ''projectadd'' then project_add_command s w
      else if base_command = ''projectedit'' then project_edit_command s w arg
      else if base_command = ''projectdelete'' then project_delete_command s w arg
      else if base_command = ''taskadd'' then task_add_command s w (py_upper (first_word arg))
      else if base_command = ''taskupdate'' then task_update_command s w arg
      else if base_command = ''taskdelete'' then task_delete_command s w arg
      else if base_command = ''exportdata'' then exportdata_command s w
      else if base_command = ''importdata'' then importdata_command s w
      else if base_command = ''clear'' then Next s w
      else if base_command = ''whoami'' then who_am_i_command s w
      else if base_command = ''history'' then show_session_history s w
      else if base_command = ''help'' then show_help s w arg
      else if base_command = ''exit'' then exit_command s w
      else if command_raw = ''hyprctl dispatch exit'' then restart_command s w
      else Next s (print_error (NotRecognized command_raw) w))"

text \<open>One turn of \<^verbatim>\<open>while True\<close>: the prompt, the gate for guests, the dispatch.\<close>

definition loop_body :: "state \<Rightarrow> world \<Rightarrow> hres" where
  "loop_body s w =
     reading s w (\<lambda>l w.
       let command_raw = py_strip l in
       case tokenize command_raw of
         (base_command, arg) \<Rightarrow>
           if \<not> logged_in s \<and> base_command \<notin> set allowed_guest_commands
           then Next s (print_error (NeedsPrivileges base_command) w)
           else dispatch command_raw base_command arg s w)"

text \<open>
  How one turn leaves \<^verbatim>\<open>main\<close>: it goes on to the next prompt, returns (\<^verbatim>\<open>exit\<close>),
  replaces the process (\<^verbatim>\<open>os.execv\<close>), or raises. The \<^verbatim>\<open>except Exception\<close> around the
  loop prints the error and records \<^verbatim>\<open>"Error Exit"\<close>; an error raised while recording leaves
  \<^verbatim>\<open>main\<close> uncaught.
\<close>

datatype outcome =
    Continue state world
  | Exited state world
  | Restarted state world
  | ErrorExit exn state world
  | Uncaught exn state world

definition error_exit :: "exn \<Rightarrow> state \<Rightarrow> world \<Rightarrow> outcome" where
  "error_exit e s w =
     (case record_session_event (id_or_unknown s) ''Error Exit''
             (current_session_start_time s) (Some (now w)) (print_error (Unexpected e) w) of
        Done u w1 \<Rightarrow> ErrorExit e s w1
      | Fail e1 w1 \<Rightarrow> Uncaught e1 s w1)"

definition main_iteration :: "state \<Rightarrow> world \<Rightarrow> outcome" where
  "main_iteration s w =
     (case loop_body s w of
        Next s1 w1 \<Rightarrow> Continue s1 w1
      | Return s1 w1 \<Rightarrow> Exited s1 w1
      | Exec s1 w1 \<Rightarrow> Restarted s1 w1
      | Raised e s1 w1 \<Rightarrow> error_exit e s1 w1)"

definition outcome_state :: "outcome \<Rightarrow> state" where
  "outcome_state r = (case r of Continue s w \<Rightarrow> s | Exited s w \<Rightarrow> s | Restarted s w \<Rightarrow> s
                      | ErrorExit e s w \<Rightarrow> s | Uncaught e s w \<Rightarrow> s)"

definition outcome_world :: "outcome \<Rightarrow> world" where
  "outcome_world r = (case r of Continue s w \<Rightarrow> w | Exited s w \<Rightarrow> w | Restarted s w \<Rightarrow> w
                      | ErrorExit e s w \<Rightarrow> w | Uncaught e s w \<Rightarrow> w)"

definition hres_state :: "hres \<Rightarrow> state" where
  "hres_state r = (case r of Next s w \<Rightarrow> s | Return s w \<Rightarrow> s | Exec s w \<Rightarrow> s | Raised e s w \<Rightarrow> s)"

definition hres_world :: "hres \<Rightarrow> world" where
  "hres_world r = (case r of Next s w \<Rightarrow> w | Return s w \<Rightarrow> w | Exec s w \<Rightarrow> w | Raised e s w \<Rightarrow> w)"

subsection \<open>The data \<^verbatim>\<open>main\<close> seeds an empty installation with\<close>

definition seed_stories :: "(int \<times> string list) list" where
  "seed_stories =
     [(1, [''March 12, 2025 '' @ em_dash @ '' Mia smiled at me during the group work.'',
           ''She looked shy but happy.'']),
      (2, [''March 20, 2025 '' @ em_dash @ '' Helped someone with their book.'',
           ''They said thank thank you with a smile.'']),
      (3, [''April 5, 2025 '' @ em_dash @ '' The class clapped when I sat down.'',
           ''Felt like a main character moment.''])]"

definition seed_profiles :: "(string \<times> profile) list" where
  "seed_profiles =
     [(''Z-1'', [''Name'' \<mapsto> Str ''Zaheerul Islam'', ''ID'' \<mapsto> Str ''Z-1'',
                 ''Role'' \<mapsto> Str ''Creator of this log system'',
                 ''IC'' \<mapsto> Str ''N/A'', ''PN'' \<mapsto> Str ''N/A'', ''CB'' \<mapsto> Num 12345])]"

definition mk_task :: "string \<Rightarrow> string \<Rightarrow> string \<Rightarrow> string \<Rightarrow> task" where
  "mk_task tid description assigned status =
     [''TaskID'' \<mapsto> Str tid, ''Description'' \<mapsto> Str description,
      ''AssignedTo'' \<mapsto> Str assigned, ''Status'' \<mapsto> Str status]"

definition seed_projects :: "(string \<times> project) list" where
  "seed_projects =
     [(''PROJ-001'',
       \<lparr>hdr = [''Name'' \<mapsto> Str ''Phase 1: Terminal UI Overhaul'',
               ''Description'' \<mapsto>
                 Str ''Improve the user interface and add core corporate functionalities.'',
               ''Status'' \<mapsto> Str ''Active'', ''DueDate'' \<mapsto> Str ''2025-08-15''],
        Tasks = Some
          [mk_task ''T-1'' ''Implement Project Management Module'' ''Z-1'' ''In Progress'',
           mk_task ''T-2'' ''Design new splash screen'' ''Unassigned'' ''Pending'',
           mk_task ''T-3'' ''Integrate user roles and permissions'' ''Z-1'' ''Pending'']\<rparr>)]"

text \<open>A seeded installation: the state after start-up for a user id (or a guest), and the
  world with the given lines waiting at the terminal.\<close>

definition seeded_state :: "string option \<Rightarrow> state" where
  "seeded_state user =
     \<lparr>current_platecore_id = user,
      current_session_start_time = ''2025-07-01 09:00:00 +08+0800'',
      stories = seed_stories, profiles = seed_profiles, projects = seed_projects\<rparr>"

definition seeded_world :: "string option \<Rightarrow> string list \<Rightarrow> world" where
  "seeded_world user lines =
     \<lparr>stdin = lines, errors = [],
      now = ''2025-07-01 09:30:00 +08+0800'', today = ''July 01, 2025'',
      session_txt = user,
      profiles_json = Content seed_profiles,
      logs_json = Content seed_stories,
      projects_json = Content seed_projects,
      history_json = Content [],
      user_files = (\<lambda>name. Missing),
      readonly = {}\<rparr>"

subsection \<open>Example worlds\<close>

text \<open>A logged-in user writes a log entry while \<^verbatim>\<open>logs.json\<close> cannot be written.\<close>

definition crash_world :: world where
  "crash_world =
     (seeded_world (Some ''demoplate'') [''newlog'', ''hello'', ''END''])\<lparr>readonly := {LOGS_FILE}\<rparr>"

text \<open>A guest imports a snapshot while \<^verbatim>\<open>profiles.json\<close> cannot be written.\<close>

definition example_snapshot :: snapshot where
  "example_snapshot =
     \<lparr>snap_profiles = [(''P-2'', [''Name'' \<mapsto> Str ''Pat'', ''ID'' \<mapsto> Str ''P-2''])],
      snap_logs = [], snap_projects = [], snap_history = []\<rparr>"

definition failing_import_world :: world where
  "failing_import_world =
     (seeded_world None [''importdata'', ''snap.json''])
       \<lparr>user_files := (\<lambda>name. if name = ''snap.json'' then Content example_snapshot else Missing),
        readonly := {PROFILES_FILE}\<rparr>"

subsection \<open>Sequences of log creations and deletions\<close>

text \<open>The states reached from a state by \<^verbatim>\<open>newlog\<close> and \<^verbatim>\<open>deletelog\<close> commands that go on
  to the next prompt, in any world.\<close>

inductive log_steps :: "state \<Rightarrow> state \<Rightarrow> bool" where
  steps_start: "log_steps s s"
| steps_newlog: "log_steps s s1 \<Longrightarrow> newlog_command s1 w = Next s2 w2 \<Longrightarrow> log_steps s s2"
| steps_deletelog: "log_steps s s1 \<Longrightarrow> deletelog_command s1 w arg = Next s2 w2 \<Longrightarrow> log_steps s s2"

section \<open>Properties\<close>

subsection \<open>The dispatcher\<close>

lemma lower_char_idem: "lower_char (lower_char c) = lower_char c"
  unfolding lower_char_def upper_letters_def lower_letters_def
  by (simp split: option.splits)

lemma py_lower_sub: "set x \<subseteq> set (py_lower r) \<Longrightarrow> py_lower x = x"
  unfolding py_lower_def
  by (rule map_idI) (auto simp: lower_char_idem)

text \<open>
  Claim C7 says that only the command token is lower-cased and that the argument keeps
  the case of the line. The dispatcher lower-cases the whole line before it splits it:
  for the line \<^verbatim>\<open>projectview PROJ-001\<close> the handler receives \<^verbatim>\<open>proj-001\<close>.
\<close>

theorem tokenize_case_counterexample:
  "tokenize (py_strip ''projectview PROJ-001'') = (''projectview'', ''proj-001'')
   \<and> snd (tokenize (py_strip ''projectview PROJ-001'')) \<noteq> ''PROJ-001''"
  by (simp add: tokenize_def py_strip_def is_space_def py_lower_def lower_char_def
      upper_letters_def lower_letters_def)

text \<open>
  Claim C7, amended: the command is the lower-cased line up to its first space character,
  the argument is the rest of the lower-cased line after that one space (empty when there
  is no space); the argument is in lower case and the command holds no space.
\<close>

theorem tokenize_lowercases_whole_line:
  "fst (tokenize r) = takeWhile (\<lambda>c. c \<noteq> CHR '' '') (py_lower r)
   \<and> snd (tokenize r) = drop 1 (dropWhile (\<lambda>c. c \<noteq> CHR '' '') (py_lower r))
   \<and> py_lower (snd (tokenize r)) = snd (tokenize r)
   \<and> CHR '' '' \<notin> set (fst (tokenize r))"
proof -
  let ?l = "py_lower r"
  have a: "fst (tokenize r) = takeWhile (\<lambda>c. c \<noteq> CHR '' '') ?l"
  proof (cases "CHR '' '' \<in> set ?l")
    case True
    then show ?thesis by (simp add: tokenize_def)
  next
    case False
    then have eq: "takeWhile (\<lambda>c. c \<noteq> CHR '' '') ?l = ?l"
      by simp metis
    from False have "fst (tokenize r) = ?l" by (simp add: tokenize_def)
    then show ?thesis by (simp only: eq)
  qed
  have b: "snd (tokenize r) = drop 1 (dropWhile (\<lambda>c. c \<noteq> CHR '' '') ?l)"
  proof (cases "CHR '' '' \<in> set ?l")
    case True
    then show ?thesis by (simp add: tokenize_def drop_Suc)
  next
    case False
    then have eq: "dropWhile (\<lambda>c. c \<noteq> CHR '' '') ?l = []"
      by simp metis
    from False have "snd (tokenize r) = []" by (simp add: tokenize_def)
    then show ?thesis by (simp only: eq drop.simps)
  qed
  have "set (drop 1 (dropWhile (\<lambda>c. c \<noteq> CHR '' '') ?l)) \<subseteq> set ?l"
    by (meson set_drop_subset set_dropWhileD subsetI subsetD)
  then have c: "py_lower (snd (tokenize r)) = snd (tokenize r)"
    unfolding b by (rule py_lower_sub)
  have d: "CHR '' '' \<notin> set (fst (tokenize r))"
    unfolding a by (auto dest: set_takeWhileD)
  from a b c d show ?thesis by blast
qed

text \<open>
  Claim C4: with no user logged in, a command outside the list of guest commands prints
  the authorization error and goes on to the next prompt; the state (every collection)
  is the same and the world differs only by the line read and the message printed, so
  no file is written.
\<close>

theorem auth_gate:
  assumes "\<not> logged_in s" and "stdin w = l # rest"
    and "fst (tokenize (py_strip l)) \<notin> set allowed_guest_commands"
  shows "main_iteration s w =
           Continue s (w\<lparr>stdin := rest,
                         errors := errors w @ [NeedsPrivileges (fst (tokenize (py_strip l)))]\<rparr>)"
proof (cases "tokenize (py_strip l)")
  case (Pair base_command arg)
  with assms show ?thesis
    by (simp add: main_iteration_def loop_body_def reading_def print_error_def Let_def)
qed

theorem auth_gate_witness:
  "\<not> logged_in (seeded_state None)
   \<and> stdin (seeded_world None [''newlog'', ''x'', ''END'']) = ''newlog'' # [''x'', ''END'']
   \<and> fst (tokenize (py_strip ''newlog'')) \<notin> set allowed_guest_commands
   \<and> main_iteration (seeded_state None) (seeded_world None [''newlog'', ''x'', ''END'']) =
       Continue (seeded_state None)
         ((seeded_world None [''newlog'', ''x'', ''END''])\<lparr>stdin := [''x'', ''END''],
            errors := [NeedsPrivileges ''newlog'']\<rparr>)"
proof -
  have h1: "\<not> logged_in (seeded_state None)"
    by (simp add: logged_in_def seeded_state_def)
  have h2: "stdin (seeded_world None [''newlog'', ''x'', ''END'']) = ''newlog'' # [''x'', ''END'']"
    by (simp add: seeded_world_def)
  have t: "tokenize (py_strip ''newlog'') = (''newlog'', [])"
    by (simp add: tokenize_def py_strip_def is_space_def py_lower_def lower_char_def
        upper_letters_def lower_letters_def)
  have h3: "fst (tokenize (py_strip ''newlog'')) \<notin> set allowed_guest_commands"
    by (simp add: t allowed_guest_commands_def)
  from auth_gate [OF h1 h2 h3] h1 h2 h3 show ?thesis
    by (simp add: t seeded_world_def)
qed

subsection \<open>Sessions and the end of the loop\<close>

lemmas str_defs = tokenize_def py_strip_def is_space_def py_lower_def lower_char_def
  upper_letters_def lower_letters_def py_upper_def upper_char_def

lemma error_exit_session: "session_txt (outcome_world (error_exit e s w)) = session_txt w"
  by (simp add: error_exit_def record_session_event_def load_session_history_def
      load_json_file_def save_session_history_def save_json_file_def print_error_def
      outcome_world_def split: stored.splits)

lemma error_exit_state: "outcome_state (error_exit e s w) = s"
  by (simp add: error_exit_def record_session_event_def load_session_history_def
      load_json_file_def save_session_history_def save_json_file_def print_error_def
      outcome_state_def split: stored.splits)

text \<open>
  Claim C10: a login attempt with a wrong id or password, made with no user logged in,
  leaves the session file and the current user as they were, whatever happens to the
  history file; when the history file can be written the turn goes on to the next prompt
  with one entry appended to the history as loaded, of type \<^verbatim>\<open>Login Denied\<close>, whose user
  id is the attempted id, or \<^verbatim>\<open>UNKNOWN\<close> for the empty string.
\<close>

theorem login_denied:
  assumes "\<not> logged_in s" and "stdin w = l # id_in # pw # rest"
    and "fst (tokenize (py_strip l)) = ''login''"
    and "\<not> (id_in = ''demoplate'' \<and> pw = ''245225'')"
  shows "session_txt (outcome_world (main_iteration s w)) = session_txt w
     \<and> current_platecore_id (outcome_state (main_iteration s w)) = current_platecore_id s
     \<and> (SESSION_HISTORY_FILE \<notin> readonly w \<longrightarrow>
          (\<exists>w1 e. main_iteration s w = Continue s w1
             \<and> history_json w1 = Content (fst (load_session_history w) @ [e])
             \<and> e ''user_id'' = Some (Str (if id_in = [] then ''UNKNOWN'' else id_in))
             \<and> e ''event_type'' = Some (Str ''Login Denied'')))"
proof (cases "tokenize (py_strip l)")
  case (Pair base_command arg)
  with assms(3) have b: "base_command = ''login''" by simp
  have body: "loop_body s w = login_command s (w\<lparr>stdin := id_in # pw # rest\<rparr>)"
    using assms(1,2) Pair b
    by (simp add: loop_body_def reading_def Let_def dispatch_def allowed_guest_commands_def)
  show ?thesis
  proof (cases "SESSION_HISTORY_FILE \<in> readonly w")
    case True
    with assms(1,4) show ?thesis
      unfolding main_iteration_def body
      by (auto simp: login_command_def reading_def saved_def record_session_event_def
          load_session_history_def load_json_file_def save_session_history_def
          save_json_file_def print_error_def error_exit_session error_exit_state
          split: stored.splits)
  next
    case False
    with assms(1,4) show ?thesis
      unfolding main_iteration_def body
      by (auto simp: login_command_def reading_def saved_def record_session_event_def
          load_session_history_def load_json_file_def save_session_history_def
          save_json_file_def print_error_def outcome_world_def outcome_state_def new_entry_def
          split: stored.splits)
  qed
qed

theorem login_denied_witness:
  "\<not> logged_in (seeded_state None)
   \<and> stdin (seeded_world None [''login'', ''mallory'', ''guess''])
       = ''login'' # ''mallory'' # ''guess'' # []
   \<and> fst (tokenize (py_strip ''login'')) = ''login''
   \<and> \<not> (''mallory'' = ''demoplate'' \<and> ''guess'' = ''245225'')
   \<and> SESSION_HISTORY_FILE \<notin> readonly (seeded_world None [''login'', ''mallory'', ''guess''])
   \<and> session_txt (outcome_world (main_iteration (seeded_state None)
         (seeded_world None [''login'', ''mallory'', ''guess'']))) = None
   \<and> current_platecore_id (outcome_state (main_iteration (seeded_state None)
         (seeded_world None [''login'', ''mallory'', ''guess'']))) = None
   \<and> (\<exists>w1 e. main_iteration (seeded_state None)
                 (seeded_world None [''login'', ''mallory'', ''guess''])
               = Continue (seeded_state None) w1
          \<and> history_json w1 = Content [e]
          \<and> e ''user_id'' = Some (Str ''mallory'')
          \<and> e ''event_type'' = Some (Str ''Login Denied''))"
proof -
  let ?s = "seeded_state None" and ?w = "seeded_world None [''login'', ''mallory'', ''guess'']"
  have h1: "\<not> logged_in ?s" by (simp add: logged_in_def seeded_state_def)
  have h2: "stdin ?w = ''login'' # ''mallory'' # ''guess'' # []" by (simp add: seeded_world_def)
  have h3: "fst (tokenize (py_strip ''login'')) = ''login''" by (simp add: str_defs)
  have h4: "\<not> (''mallory'' = ''demoplate'' \<and> ''guess'' = ''245225'')" by simp
  have h5: "SESSION_HISTORY_FILE \<notin> readonly ?w" by (simp add: seeded_world_def)
  have l: "fst (load_session_history ?w) = []"
    by (simp add: load_session_history_def load_json_file_def seeded_world_def)
  have s: "session_txt ?w = None" by (simp add: seeded_world_def)
  have c: "current_platecore_id ?s = None" by (simp add: seeded_state_def)
  from login_denied [OF h1 h2 h3 h4] h1 h2 h3 h4 h5 show ?thesis
    by (simp add: l s c)
qed

text \<open>
  Claim C2 says that the loop clears the session token on both ways out. The \<^verbatim>\<open>exit\<close>
  command does; the \<^verbatim>\<open>except\<close> branch around the loop records \<^verbatim>\<open>Error Exit\<close> and
  returns without \<^verbatim>\<open>clear_session\<close>. Here the user \<^verbatim>\<open>demoplate\<close> writes a log entry while
  the logs file cannot be written: the turn ends in the error exit, the history holds the
  \<^verbatim>\<open>Error Exit\<close> entry, and the session file still names the user.
\<close>

theorem error_exit_keeps_session_token:
  "\<exists>s1 w1 e. main_iteration (seeded_state (Some ''demoplate'')) crash_world
                = ErrorExit IOError s1 w1
     \<and> history_json w1 = Content [e]
     \<and> e ''event_type'' = Some (Str ''Error Exit'')
     \<and> session_txt w1 = Some ''demoplate''
     \<and> current_platecore_id s1 = Some ''demoplate''"
proof -
  have t: "tokenize (py_strip ''newlog'') = (''newlog'', [])" by (simp add: str_defs)
  have c: "\<not> contains em_dash ''hello''" by (simp add: em_dash_def)
  have w: "SESSION_HISTORY_FILE \<noteq> LOGS_FILE"
    by (simp add: LOGS_FILE_def SESSION_HISTORY_FILE_def)
  have u: "py_upper (py_strip ''END'') = ''END''" "py_upper (py_strip ''hello'') \<noteq> ''END''"
    by (simp_all add: str_defs)
  show ?thesis
    by (simp add: main_iteration_def loop_body_def reading_def crash_world_def seeded_world_def
        seeded_state_def logged_in_def t dispatch_def newlog_command_def c Let_def saved_def
        save_logs_def save_json_file_def print_error_def error_exit_def record_session_event_def
        load_session_history_def load_json_file_def save_session_history_def new_entry_def
        id_or_unknown_def w u)
qed

text \<open>
  Claim C8 says that a failed save always reaches the top of the loop, also during
  \<^verbatim>\<open>importdata\<close>. The saves of \<^verbatim>\<open>import_all_data\<close> sit inside its own
  \<^verbatim>\<open>except Exception\<close>: when \<^verbatim>\<open>profiles.json\<close> cannot be written the import prints its
  message and the loop goes on to the next prompt, with no \<^verbatim>\<open>Error Exit\<close> in the history.
\<close>

theorem import_swallows_save_failure:
  "\<exists>s1 w1. main_iteration (seeded_state None) failing_import_world = Continue s1 w1
     \<and> errors w1 = [WriteFailed PROFILES_FILE, ImportFailed IOError]
     \<and> history_json w1 = Content []
     \<and> profiles_json w1 = Content seed_profiles
     \<and> profiles s1 = seed_profiles"
proof -
  have t: "tokenize (py_strip ''importdata'') = (''importdata'', [])" by (simp add: str_defs)
  have f: "py_strip ''snap.json'' = ''snap.json''" by (simp add: str_defs)
  show ?thesis
    by (simp add: main_iteration_def loop_body_def reading_def failing_import_world_def
        seeded_world_def seeded_state_def logged_in_def t f dispatch_def Let_def
        allowed_guest_commands_def importdata_command_def import_all_data_def
        import_profiles_step_def save_profiles_def save_json_file_def print_error_def
        import_caught_def reload_def load_profiles_def load_logs_def load_projects_def
        load_json_file_def)
qed

subsection \<open>Task status\<close>

lemma update_first_split:
  "list_ex P xs \<Longrightarrow>
     \<exists>ys x zs. xs = ys @ x # zs \<and> P x \<and> (\<forall>y\<in>set ys. \<not> P y)
        \<and> update_first P f xs = ys @ f x # zs"
proof (induction xs)
  case Nil
  then show ?case by simp
next
  case (Cons a xs)
  show ?case
  proof (cases "P a")
    case True
    then have "a # xs = [] @ a # xs \<and> P a \<and> (\<forall>y\<in>set []. \<not> P y)
        \<and> update_first P f (a # xs) = [] @ f a # xs" by simp
    then show ?thesis by blast
  next
    case False
    with Cons.prems have "list_ex P xs" by simp
    from Cons.IH [OF this] obtain ys x zs where
      h: "xs = ys @ x # zs" "P x" "\<forall>y\<in>set ys. \<not> P y" "update_first P f xs = ys @ f x # zs"
      by blast
    with False have "a # xs = (a # ys) @ x # zs \<and> P x \<and> (\<forall>y\<in>set (a # ys). \<not> P y)
        \<and> update_first P f (a # xs) = (a # ys) @ f x # zs" by simp
    then show ?thesis by blast
  qed
qed

text \<open>
  Claim C9: \<^verbatim>\<open>taskupdate\<close> with update type \<^verbatim>\<open>status\<close> on a task that exists. When the
  value, in lower case, is one of the three statuses, the first task with the id gets the
  title-cased value as its \<^verbatim>\<open>Status\<close>, nothing else changes, and the projects are saved
  (the file then holds them, or the write raises). Otherwise the command prints the
  validation error and returns with the state and the world as they were.
\<close>

theorem task_status_update:
  assumes "py_split 3 args_str = proj_id_raw # task_id_raw # update_type # rest"
    and "py_lower update_type = ''status''"
    and "map_of (projects s) (py_upper proj_id_raw) = Some proj"
    and "list_ex (has_id (py_upper task_id_raw)) (tasks_of proj)"
  shows "(py_lower (arg_value rest) \<in> set status_values \<longrightarrow>
           (\<exists>ts1 t ts2 s1.
              tasks_of proj = ts1 @ t # ts2 \<and> has_id (py_upper task_id_raw) t
              \<and> (\<forall>x\<in>set ts1. \<not> has_id (py_upper task_id_raw) x)
              \<and> s1 = s\<lparr>projects := AList.update (py_upper proj_id_raw)
                        (proj\<lparr>Tasks := Some (ts1
                            @ t(''Status'' \<mapsto> Str (py_title (arg_value rest))) # ts2)\<rparr>)
                        (projects s)\<rparr>
              \<and> task_update_command s w args_str =
                  (if PROJECTS_FILE \<in> readonly w
                   then Raised IOError s1 (print_error (WriteFailed PROJECTS_FILE) w)
                   else Next s1 (w\<lparr>projects_json := Content (projects s1)\<rparr>))))
       \<and> (py_lower (arg_value rest) \<notin> set status_values \<longrightarrow>
            task_update_command s w args_str = Next s (print_error (Invalid ''status'') w))"
proof (intro conjI impI)
  assume ok: "py_lower (arg_value rest) \<in> set status_values"
  let ?f = "\<lambda>t::task. t(''Status'' \<mapsto> Str (py_title (arg_value rest)))"
  from update_first_split [OF assms(4), of ?f] obtain ts1 t ts2 where
    h: "tasks_of proj = ts1 @ t # ts2" "has_id (py_upper task_id_raw) t"
       "\<forall>x\<in>set ts1. \<not> has_id (py_upper task_id_raw) x"
       "update_first (has_id (py_upper task_id_raw)) ?f (tasks_of proj) = ts1 @ ?f t # ts2"
    by blast
  let ?s1 = "s\<lparr>projects := AList.update (py_upper proj_id_raw)
                        (proj\<lparr>Tasks := Some (ts1 @ ?f t # ts2)\<rparr>) (projects s)\<rparr>"
  have "task_update_command s w args_str =
          (if PROJECTS_FILE \<in> readonly w
           then Raised IOError ?s1 (print_error (WriteFailed PROJECTS_FILE) w)
           else Next ?s1 (w\<lparr>projects_json := Content (projects ?s1)\<rparr>))"
    using assms ok h(4)
    by (simp add: task_update_command_def Let_def commit_task_def set_project_def saved_def
        save_projects_def save_json_file_def)
  with h(1,2,3) show "\<exists>ts1 t ts2 s1.
              tasks_of proj = ts1 @ t # ts2 \<and> has_id (py_upper task_id_raw) t
              \<and> (\<forall>x\<in>set ts1. \<not> has_id (py_upper task_id_raw) x)
              \<and> s1 = s\<lparr>projects := AList.update (py_upper proj_id_raw)
                        (proj\<lparr>Tasks := Some (ts1
                            @ t(''Status'' \<mapsto> Str (py_title (arg_value rest))) # ts2)\<rparr>)
                        (projects s)\<rparr>
              \<and> task_update_command s w args_str =
                  (if PROJECTS_FILE \<in> readonly w
                   then Raised IOError s1 (print_error (WriteFailed PROJECTS_FILE) w)
                   else Next s1 (w\<lparr>projects_json := Content (projects s1)\<rparr>))"
    by blast
next
  assume "py_lower (arg_value rest) \<notin> set status_values"
  with assms show "task_update_command s w args_str = Next s (print_error (Invalid ''status'') w)"
    by (simp add: task_update_command_def Let_def)
qed

theorem task_status_update_witness:
  "py_split 3 ''proj-001 t-1 status in progress''
     = ''proj-001'' # ''t-1'' # ''status'' # [''in progress'']
   \<and> py_lower ''status'' = ''status''
   \<and> map_of (projects (seeded_state (Some ''demoplate''))) (py_upper ''proj-001'')
        = Some (snd (hd seed_projects))
   \<and> list_ex (has_id (py_upper ''t-1'')) (tasks_of (snd (hd seed_projects)))
   \<and> py_lower (arg_value [''in progress'']) \<in> set status_values
   \<and> py_title (arg_value [''in progress'']) = ''In Progress''
   \<and> (\<exists>s1. task_update_command (seeded_state (Some ''demoplate''))
               (seeded_world (Some ''demoplate'') []) ''proj-001 t-1 status in progress''
             = Next s1 ((seeded_world (Some ''demoplate'') [])
                          \<lparr>projects_json := Content (projects s1)\<rparr>))"
proof -
  let ?s = "seeded_state (Some ''demoplate'')" and ?w = "seeded_world (Some ''demoplate'') []"
  have h1: "py_split 3 ''proj-001 t-1 status in progress''
              = ''proj-001'' # ''t-1'' # ''status'' # [''in progress'']"
    by (simp add: numeral_3_eq_3)
  have h2: "py_lower ''status'' = ''status''" by (simp add: str_defs)
  have u: "py_upper ''proj-001'' = ''PROJ-001''" "py_upper ''t-1'' = ''T-1''"
    by (simp_all add: str_defs)
  have h3: "map_of (projects ?s) (py_upper ''proj-001'') = Some (snd (hd seed_projects))"
    by (simp add: u seeded_state_def seed_projects_def)
  have h4: "list_ex (has_id (py_upper ''t-1'')) (tasks_of (snd (hd seed_projects)))"
    by (simp add: u seed_projects_def tasks_of_def has_id_def mk_task_def)
  have h5: "py_lower (arg_value [''in progress'']) \<in> set status_values"
    by (simp add: arg_value_def status_values_def str_defs)
  have h6: "py_title (arg_value [''in progress'']) = ''In Progress''"
    by (simp add: arg_value_def py_title_def str_defs)
  have r: "PROJECTS_FILE \<notin> readonly ?w" by (simp add: seeded_world_def)
  from task_status_update [OF h1 h2 h3 h4, of ?w] h5 r
  have "\<exists>s1. task_update_command ?s ?w ''proj-001 t-1 status in progress''
             = Next s1 (?w\<lparr>projects_json := Content (projects s1)\<rparr>)"
    by auto
  with h1 h2 h3 h4 h5 h6 show ?thesis by blast
qed

subsection \<open>Edits\<close>

lemma edit_field_blank: "py_strip a = [] \<Longrightarrow> edit_field key a d = d"
  by (simp add: edit_field_def)

lemma edit_field_other: "k \<noteq> key \<Longrightarrow> edit_field key a d k = d k"
  by (simp add: edit_field_def Let_def)

lemma edit_cb_blank: "py_strip a = [] \<Longrightarrow> edit_cb a d w = (d, w)"
  by (simp add: edit_cb_def)

lemma edit_cb_other: "k \<noteq> ''CB'' \<Longrightarrow> fst (edit_cb a d w) k = d k"
  by (simp add: edit_cb_def Let_def split: option.splits)

lemma set_profile_same:
  "map_of (profiles s) pid = Some p \<Longrightarrow> set_profile pid p s = s"
  by (simp add: set_profile_def update_triv)

lemma set_profile_twice:
  "set_profile pid p (set_profile pid q s) = set_profile pid p s"
  by (simp add: set_profile_def)

lemma profile_edit_keeps:
  assumes "map_of (profiles s) (py_upper (py_strip arg)) = Some p"
    and "py_upper (py_strip arg) \<noteq> []"
    and "stdin w = a1 # a2 # a3 # a4 # a5 # rest"
  shows "\<exists>p1 s1 w1.
           profilesedit_command s w arg = saved s1 (save_profiles (profiles s1) w1)
         \<and> s1 = set_profile (py_upper (py_strip arg)) p1 s
         \<and> (py_strip a1 = [] \<longrightarrow> p1 ''Name'' = p ''Name'')
         \<and> (py_strip a2 = [] \<longrightarrow> p1 ''Role'' = p ''Role'')
         \<and> (py_strip a3 = [] \<longrightarrow> p1 ''IC'' = p ''IC'')
         \<and> (py_strip a4 = [] \<longrightarrow> p1 ''PN'' = p ''PN'')
         \<and> (py_strip a5 = [] \<longrightarrow> p1 ''CB'' = p ''CB'')
         \<and> (\<forall>k. k \<notin> {''Name'', ''Role'', ''IC'', ''PN'', ''CB''} \<longrightarrow> p1 k = p k)
         \<and> (py_strip a1 = [] \<and> py_strip a2 = [] \<and> py_strip a3 = [] \<and> py_strip a4 = []
              \<and> py_strip a5 = [] \<longrightarrow> p1 = p \<and> s1 = s \<and> w1 = w\<lparr>stdin := rest\<rparr>)"
proof -
  let ?pid = "py_upper (py_strip arg)"
  let ?w = "w\<lparr>stdin := rest\<rparr>"
  define p4 where
    "p4 = edit_field ''PN'' a4 (edit_field ''IC'' a3 (edit_field ''Role'' a2 (edit_field ''Name'' a1 p)))"
  define p1 where "p1 = fst (edit_cb a5 p4 ?w)"
  define w1 where "w1 = snd (edit_cb a5 p4 ?w)"
  have cb5: "edit_cb a5 p4 ?w = (p1, w1)" by (simp add: p1_def w1_def)
  have run: "profilesedit_command s w arg
        = saved (set_profile ?pid p1 s) (save_profiles (profiles (set_profile ?pid p1 s)) w1)"
    using assms cb5 [unfolded p4_def]
    by (simp add: profilesedit_command_def reading_def Let_def set_profile_twice)
  have n: "py_strip a1 = [] \<longrightarrow> p1 ''Name'' = p ''Name''"
    by (simp add: p1_def p4_def edit_cb_other edit_field_other edit_field_blank)
  have r: "py_strip a2 = [] \<longrightarrow> p1 ''Role'' = p ''Role''"
    by (simp add: p1_def p4_def edit_cb_other edit_field_other edit_field_blank)
  have i: "py_strip a3 = [] \<longrightarrow> p1 ''IC'' = p ''IC''"
    by (simp add: p1_def p4_def edit_cb_other edit_field_other edit_field_blank)
  have pn: "py_strip a4 = [] \<longrightarrow> p1 ''PN'' = p ''PN''"
    by (simp add: p1_def p4_def edit_cb_other edit_field_other edit_field_blank)
  have cb: "py_strip a5 = [] \<longrightarrow> p1 ''CB'' = p ''CB''"
    by (simp add: p1_def p4_def edit_cb_blank edit_field_other)
  have o: "\<forall>k. k \<notin> {''Name'', ''Role'', ''IC'', ''PN'', ''CB''} \<longrightarrow> p1 k = p k"
    by (simp add: p1_def p4_def edit_cb_other edit_field_other)
  have all: "py_strip a1 = [] \<and> py_strip a2 = [] \<and> py_strip a3 = [] \<and> py_strip a4 = []
              \<and> py_strip a5 = [] \<longrightarrow> p1 = p \<and> set_profile ?pid p1 s = s \<and> w1 = ?w"
    using assms(1)
    by (simp add: p1_def w1_def p4_def edit_cb_blank edit_field_blank set_profile_same)
  show ?thesis
  proof (intro exI conjI)
    show "profilesedit_command s w arg
        = saved (set_profile ?pid p1 s) (save_profiles (profiles (set_profile ?pid p1 s)) w1)"
      by (rule run)
    show "set_profile ?pid p1 s = set_profile ?pid p1 s" by (rule refl)
    show "py_strip a1 = [] \<longrightarrow> p1 ''Name'' = p ''Name''" by (rule n)
    show "py_strip a2 = [] \<longrightarrow> p1 ''Role'' = p ''Role''" by (rule r)
    show "py_strip a3 = [] \<longrightarrow> p1 ''IC'' = p ''IC''" by (rule i)
    show "py_strip a4 = [] \<longrightarrow> p1 ''PN'' = p ''PN''" by (rule pn)
    show "py_strip a5 = [] \<longrightarrow> p1 ''CB'' = p ''CB''" by (rule cb)
    show "\<forall>k. k \<notin> {''Name'', ''Role'', ''IC'', ''PN'', ''CB''} \<longrightarrow> p1 k = p k" by (rule o)
    show "py_strip a1 = [] \<and> py_strip a2 = [] \<and> py_strip a3 = [] \<and> py_strip a4 = []
              \<and> py_strip a5 = [] \<longrightarrow> p1 = p \<and> set_profile ?pid p1 s = s \<and> w1 = ?w"
      by (rule all)
  qed
qed

lemma set_hdr_same:
  "map_of (projects s) pid = Some proj \<Longrightarrow> set_hdr pid proj (hdr proj) s = s"
  by (simp add: set_hdr_def set_project_def update_triv)

lemma set_hdr_twice:
  "set_hdr pid proj h (set_hdr pid proj g s) = set_hdr pid proj h s"
  by (simp add: set_hdr_def set_project_def)

lemma project_edit_keeps:
  assumes "map_of (projects s) (py_upper project_id) = Some proj"
    and "project_id \<noteq> []"
    and "stdin w = a1 # a2 # a3 # a4 # rest"
  shows "\<exists>h1 s1.
           project_edit_command s w project_id
             = saved s1 (save_projects (projects s1) (w\<lparr>stdin := rest\<rparr>))
         \<and> s1 = set_project (py_upper project_id) (proj\<lparr>hdr := h1\<rparr>) s
         \<and> (py_strip a1 = [] \<longrightarrow> h1 ''Name'' = hdr proj ''Name'')
         \<and> (py_strip a2 = [] \<longrightarrow> h1 ''Description'' = hdr proj ''Description'')
         \<and> (py_strip a3 = [] \<longrightarrow> h1 ''Status'' = hdr proj ''Status'')
         \<and> (py_strip a4 = [] \<longrightarrow> h1 ''DueDate'' = hdr proj ''DueDate'')
         \<and> (\<forall>k. k \<notin> {''Name'', ''Description'', ''Status'', ''DueDate''} \<longrightarrow> h1 k = hdr proj k)
         \<and> (py_strip a1 = [] \<and> py_strip a2 = [] \<and> py_strip a3 = [] \<and> py_strip a4 = []
              \<longrightarrow> h1 = hdr proj \<and> s1 = s)"
proof -
  let ?pid = "py_upper project_id"
  define h1 where
    "h1 = edit_field ''DueDate'' a4 (edit_field ''Status'' a3
            (edit_field ''Description'' a2 (edit_field ''Name'' a1 (hdr proj))))"
  have run: "project_edit_command s w project_id
        = saved (set_project ?pid (proj\<lparr>hdr := h1\<rparr>) s)
            (save_projects (projects (set_project ?pid (proj\<lparr>hdr := h1\<rparr>) s)) (w\<lparr>stdin := rest\<rparr>))"
    using assms
    by (simp add: project_edit_command_def reading_def Let_def set_hdr_twice h1_def
        set_hdr_def[symmetric])
  have n: "py_strip a1 = [] \<longrightarrow> h1 ''Name'' = hdr proj ''Name''"
    by (simp add: h1_def edit_field_other edit_field_blank)
  have d: "py_strip a2 = [] \<longrightarrow> h1 ''Description'' = hdr proj ''Description''"
    by (simp add: h1_def edit_field_other edit_field_blank)
  have st: "py_strip a3 = [] \<longrightarrow> h1 ''Status'' = hdr proj ''Status''"
    by (simp add: h1_def edit_field_other edit_field_blank)
  have du: "py_strip a4 = [] \<longrightarrow> h1 ''DueDate'' = hdr proj ''DueDate''"
    by (simp add: h1_def edit_field_other edit_field_blank)
  have o: "\<forall>k. k \<notin> {''Name'', ''Description'', ''Status'', ''DueDate''} \<longrightarrow> h1 k = hdr proj k"
    by (simp add: h1_def edit_field_other)
  have all: "py_strip a1 = [] \<and> py_strip a2 = [] \<and> py_strip a3 = [] \<and> py_strip a4 = []
              \<longrightarrow> h1 = hdr proj \<and> set_project ?pid (proj\<lparr>hdr := h1\<rparr>) s = s"
    using assms(1) set_hdr_same [OF assms(1)]
    by (simp add: h1_def edit_field_blank set_hdr_def)
  from run n d st du o all show ?thesis by blast
qed

text \<open>
  Claim C6: \<^verbatim>\<open>profilesedit\<close> on a profile that exists and \<^verbatim>\<open>projectedit\<close> on a project
  that exists. Each field whose prompt is answered with a blank line keeps its value (an
  absent field stays absent), the fields that are not prompted for keep theirs, and when
  every answer is blank the record, the whole state and the world but for the lines read
  are the same as before the save.
\<close>

theorem edit_blank_keeps:
  assumes "map_of (profiles s) (py_upper (py_strip arg)) = Some p"
    and "py_upper (py_strip arg) \<noteq> []"
    and "stdin w = a1 # a2 # a3 # a4 # a5 # rest"
    and "map_of (projects t) (py_upper project_id) = Some proj"
    and "project_id \<noteq> []"
    and "stdin v = b1 # b2 # b3 # b4 # rest2"
  shows "(\<exists>p1 s1 w1.
           profilesedit_command s w arg = saved s1 (save_profiles (profiles s1) w1)
         \<and> s1 = set_profile (py_upper (py_strip arg)) p1 s
         \<and> (py_strip a1 = [] \<longrightarrow> p1 ''Name'' = p ''Name'')
         \<and> (py_strip a2 = [] \<longrightarrow> p1 ''Role'' = p ''Role'')
         \<and> (py_strip a3 = [] \<longrightarrow> p1 ''IC'' = p ''IC'')
         \<and> (py_strip a4 = [] \<longrightarrow> p1 ''PN'' = p ''PN'')
         \<and> (py_strip a5 = [] \<longrightarrow> p1 ''CB'' = p ''CB'')
         \<and> (\<forall>k. k \<notin> {''Name'', ''Role'', ''IC'', ''PN'', ''CB''} \<longrightarrow> p1 k = p k)
         \<and> (py_strip a1 = [] \<and> py_strip a2 = [] \<and> py_strip a3 = [] \<and> py_strip a4 = []
              \<and> py_strip a5 = [] \<longrightarrow> p1 = p \<and> s1 = s \<and> w1 = w\<lparr>stdin := rest\<rparr>))
     \<and> (\<exists>h1 t1.
           project_edit_command t v project_id
             = saved t1 (save_projects (projects t1) (v\<lparr>stdin := rest2\<rparr>))
         \<and> t1 = set_project (py_upper project_id) (proj\<lparr>hdr := h1\<rparr>) t
         \<and> (py_strip b1 = [] \<longrightarrow> h1 ''Name'' = hdr proj ''Name'')
         \<and> (py_strip b2 = [] \<longrightarrow> h1 ''Description'' = hdr proj ''Description'')
         \<and> (py_strip b3 = [] \<longrightarrow> h1 ''Status'' = hdr proj ''Status'')
         \<and> (py_strip b4 = [] \<longrightarrow> h1 ''DueDate'' = hdr proj ''DueDate'')
         \<and> (\<forall>k. k \<notin> {''Name'', ''Description'', ''Status'', ''DueDate''}
                \<longrightarrow> h1 k = hdr proj k)
         \<and> (py_strip b1 = [] \<and> py_strip b2 = [] \<and> py_strip b3 = [] \<and> py_strip b4 = []
              \<longrightarrow> h1 = hdr proj \<and> t1 = t))"
proof (rule conjI)
  from assms(1,2,3) show "\<exists>p1 s1 w1.
           profilesedit_command s w arg = saved s1 (save_profiles (profiles s1) w1)
         \<and> s1 = set_profile (py_upper (py_strip arg)) p1 s
         \<and> (py_strip a1 = [] \<longrightarrow> p1 ''Name'' = p ''Name'')
         \<and> (py_strip a2 = [] \<longrightarrow> p1 ''Role'' = p ''Role'')
         \<and> (py_strip a3 = [] \<longrightarrow> p1 ''IC'' = p ''IC'')
         \<and> (py_strip a4 = [] \<longrightarrow> p1 ''PN'' = p ''PN'')
         \<and> (py_strip a5 = [] \<longrightarrow> p1 ''CB'' = p ''CB'')
         \<and> (\<forall>k. k \<notin> {''Name'', ''Role'', ''IC'', ''PN'', ''CB''} \<longrightarrow> p1 k = p k)
         \<and> (py_strip a1 = [] \<and> py_strip a2 = [] \<and> py_strip a3 = [] \<and> py_strip a4 = []
              \<and> py_strip a5 = [] \<longrightarrow> p1 = p \<and> s1 = s \<and> w1 = w\<lparr>stdin := rest\<rparr>)"
    by (rule profile_edit_keeps)
  from assms(4,5,6) show "\<exists>h1 t1.
           project_edit_command t v project_id
             = saved t1 (save_projects (projects t1) (v\<lparr>stdin := rest2\<rparr>))
         \<and> t1 = set_project (py_upper project_id) (proj\<lparr>hdr := h1\<rparr>) t
         \<and> (py_strip b1 = [] \<longrightarrow> h1 ''Name'' = hdr proj ''Name'')
         \<and> (py_strip b2 = [] \<longrightarrow> h1 ''Description'' = hdr proj ''Description'')
         \<and> (py_strip b3 = [] \<longrightarrow> h1 ''Status'' = hdr proj ''Status'')
         \<and> (py_strip b4 = [] \<longrightarrow> h1 ''DueDate'' = hdr proj ''DueDate'')
         \<and> (\<forall>k. k \<notin> {''Name'', ''Description'', ''Status'', ''DueDate''}
                \<longrightarrow> h1 k = hdr proj k)
         \<and> (py_strip b1 = [] \<and> py_strip b2 = [] \<and> py_strip b3 = [] \<and> py_strip b4 = []
              \<longrightarrow> h1 = hdr proj \<and> t1 = t)"
    by (rule project_edit_keeps)
qed

theorem edit_blank_keeps_witness:
  "map_of (profiles (seeded_state (Some ''demoplate''))) (py_upper (py_strip ''z-1''))
     = Some (snd (hd seed_profiles))
   \<and> py_upper (py_strip ''z-1'') \<noteq> []
   \<and> stdin (seeded_world (Some ''demoplate'') [[], '' '', [], [], [], ''whoami''])
       = [] # '' '' # [] # [] # [] # [''whoami'']
   \<and> map_of (projects (seeded_state (Some ''demoplate''))) (py_upper ''proj-001'')
       = Some (snd (hd seed_projects))
   \<and> ''proj-001'' \<noteq> []
   \<and> stdin (seeded_world (Some ''demoplate'') [[], [], '' '', []]) = [] # [] # '' '' # [] # []
   \<and> profilesedit_command (seeded_state (Some ''demoplate''))
        (seeded_world (Some ''demoplate'') [[], '' '', [], [], [], ''whoami'']) ''z-1''
       = Next (seeded_state (Some ''demoplate'')) (seeded_world (Some ''demoplate'') [''whoami''])
   \<and> project_edit_command (seeded_state (Some ''demoplate''))
        (seeded_world (Some ''demoplate'') [[], [], '' '', []]) ''proj-001''
       = Next (seeded_state (Some ''demoplate'')) (seeded_world (Some ''demoplate'') [])"
proof -
  let ?s = "seeded_state (Some ''demoplate'')"
  let ?w = "seeded_world (Some ''demoplate'') [[], '' '', [], [], [], ''whoami'']"
  let ?v = "seeded_world (Some ''demoplate'') [[], [], '' '', []]"
  have u: "py_upper (py_strip ''z-1'') = ''Z-1''" "py_upper ''proj-001'' = ''PROJ-001''"
    by (simp_all add: str_defs)
  have b: "py_strip [] = []" "py_strip '' '' = []" by (simp_all add: str_defs)
  have h1: "map_of (profiles ?s) (py_upper (py_strip ''z-1'')) = Some (snd (hd seed_profiles))"
    by (simp add: u seeded_state_def seed_profiles_def)
  have h2: "py_upper (py_strip ''z-1'') \<noteq> []" by (simp add: u)
  have h3: "stdin ?w = [] # '' '' # [] # [] # [] # [''whoami'']"
    by (simp add: seeded_world_def)
  have h4: "map_of (projects ?s) (py_upper ''proj-001'') = Some (snd (hd seed_projects))"
    by (simp add: u seeded_state_def seed_projects_def)
  have h5: "''proj-001'' \<noteq> []" by simp
  have h6: "stdin ?v = [] # [] # '' '' # [] # []" by (simp add: seeded_world_def)
  have sp: "saved ?s (save_profiles (profiles ?s) (?w\<lparr>stdin := [''whoami'']\<rparr>))
              = Next ?s (seeded_world (Some ''demoplate'') [''whoami''])"
    by (simp add: saved_def save_profiles_def save_json_file_def seeded_world_def
        seeded_state_def)
  have sq: "saved ?s (save_projects (projects ?s) (?v\<lparr>stdin := []\<rparr>))
              = Next ?s (seeded_world (Some ''demoplate'') [])"
    by (simp add: saved_def save_projects_def save_json_file_def seeded_world_def
        seeded_state_def)
  note e = edit_blank_keeps [OF h1 h2 h3 h4 h5 h6]
  from e [THEN conjunct1] obtain p1 s1 w1 where
    p: "profilesedit_command ?s ?w ''z-1'' = saved s1 (save_profiles (profiles s1) w1)"
    and pb: "py_strip [] = [] \<and> py_strip '' '' = [] \<and> py_strip [] = [] \<and> py_strip [] = []
              \<and> py_strip [] = []
             \<longrightarrow> p1 = snd (hd seed_profiles) \<and> s1 = ?s \<and> w1 = ?w\<lparr>stdin := [''whoami'']\<rparr>"
    by (elim exE conjE) (rule that, assumption+)
  from e [THEN conjunct2] obtain g1 t1 where
    q: "project_edit_command ?s ?v ''proj-001''
          = saved t1 (save_projects (projects t1) (?v\<lparr>stdin := []\<rparr>))"
    and qb: "py_strip [] = [] \<and> py_strip [] = [] \<and> py_strip '' '' = [] \<and> py_strip [] = []
             \<longrightarrow> g1 = hdr (snd (hd seed_projects)) \<and> t1 = ?s"
    by (elim exE conjE) (rule that, assumption+)
  from pb b have "s1 = ?s" "w1 = ?w\<lparr>stdin := [''whoami'']\<rparr>" by simp_all
  with p sp have r1: "profilesedit_command ?s ?w ''z-1''
      = Next ?s (seeded_world (Some ''demoplate'') [''whoami''])" by simp
  from qb b have "t1 = ?s" by simp
  with q sq have r2: "project_edit_command ?s ?v ''proj-001''
      = Next ?s (seeded_world (Some ''demoplate'') [])" by simp
  from r1 r2 h1 h2 h3 h4 h5 h6 show ?thesis by blast
qed

subsection \<open>Log ids\<close>

lemma next_id_greater: "k \<in> fst ` set d \<Longrightarrow> k < next_id d"
proof -
  assume k: "k \<in> fst ` set d"
  then have ne: "d \<noteq> []" by auto
  from k have "k \<le> Max (set (map fst d))" by simp
  with ne show ?thesis by (simp add: next_id_def)
qed

lemma next_id_positive: "\<forall>k\<in>fst ` set d. 0 < k \<Longrightarrow> 0 < next_id d"
proof (cases d)
  case Nil
  then show ?thesis by (simp add: next_id_def)
next
  case (Cons a list)
  assume "\<forall>k\<in>fst ` set d. 0 < k"
  with Cons have "0 < fst a" by simp
  also from Cons have "fst a < next_id d" by (intro next_id_greater) simp
  finally show ?thesis .
qed

lemma newlog_stories:
  "newlog_command s w = Next s2 w2 \<Longrightarrow>
     stories s2 = stories s \<or> (\<exists>entry. stories s2 = AList.update (next_id (stories s)) entry (stories s))"
  by (auto simp: newlog_command_def Let_def saved_def save_logs_def save_json_file_def
      split: option.splits list.splits if_splits prod.splits)

lemma deletelog_stories:
  "deletelog_command s w arg = Next s2 w2 \<Longrightarrow>
     stories s2 = stories s \<or> (\<exists>i. stories s2 = AList.delete i (stories s))"
  by (auto simp: deletelog_command_def Let_def saved_def save_logs_def save_json_file_def
      reading_def print_error_def
      split: option.splits list.splits if_splits prod.splits)

lemma log_steps_positive:
  "log_steps s0 s \<Longrightarrow> \<forall>k\<in>fst ` set (stories s0). 0 < k \<Longrightarrow> \<forall>k\<in>fst ` set (stories s). 0 < k"
proof (induction rule: log_steps.induct)
  case (steps_start s)
  then show ?case by simp
next
  case (steps_newlog s s1 w s2 w2)
  then have pos: "\<forall>k\<in>fst ` set (stories s1). 0 < k" by simp
  from newlog_stories [OF steps_newlog.hyps(2)] show ?case
  proof
    assume "stories s2 = stories s1"
    with pos show ?thesis by simp
  next
    assume "\<exists>entry. stories s2 = AList.update (next_id (stories s1)) entry (stories s1)"
    then obtain entry where "stories s2 = AList.update (next_id (stories s1)) entry (stories s1)"
      by blast
    with pos next_id_positive [OF pos] show ?thesis by (simp add: dom_update)
  qed
next
  case (steps_deletelog s s1 w arg s2 w2)
  then have pos: "\<forall>k\<in>fst ` set (stories s1). 0 < k" by simp
  from deletelog_stories [OF steps_deletelog.hyps(2)] show ?case
  proof
    assume "stories s2 = stories s1"
    with pos show ?thesis by simp
  next
    assume "\<exists>i. stories s2 = AList.delete i (stories s1)"
    then obtain i where "stories s2 = AList.delete i (stories s1)" by blast
    with pos show ?thesis by (auto simp: AList.delete_eq)
  qed
qed

text \<open>
  Claim C5: in every state reached by creations and deletions of logs from a state whose
  log ids are positive, a \<^verbatim>\<open>newlog\<close> with content stores the entry under the id that
  is one more than the greatest id present, or 1 when there is no log; that id is
  positive and greater than every id present, so it is not the id of a log that exists.
\<close>

theorem log_id_allocation:
  assumes "\<forall>k\<in>fst ` set (stories s0). 0 < k" and "log_steps s0 s"
    and "read_entry (stdin w) = Some (first_line # others, rest)"
  shows "(\<exists>entry. stories (hres_state (newlog_command s w))
                    = AList.update (next_id (stories s)) entry (stories s))
       \<and> next_id (stories s) = (if stories s = [] then 1 else Max (fst ` set (stories s)) + 1)
       \<and> 0 < next_id (stories s)
       \<and> (\<forall>k\<in>fst ` set (stories s). k < next_id (stories s))"
proof -
  have a: "\<exists>entry. stories (hres_state (newlog_command s w))
                    = AList.update (next_id (stories s)) entry (stories s)"
    using assms(3)
    by (auto simp: newlog_command_def Let_def saved_def save_logs_def save_json_file_def
        hres_state_def)
  have b: "next_id (stories s) = (if stories s = [] then 1 else Max (fst ` set (stories s)) + 1)"
    by (simp add: next_id_def)
  have c: "0 < next_id (stories s)"
    using log_steps_positive [OF assms(2,1)] by (rule next_id_positive)
  have d: "\<forall>k\<in>fst ` set (stories s). k < next_id (stories s)"
    using next_id_greater by blast
  from a b c d show ?thesis by blast
qed

theorem log_id_allocation_witness:
  "fst ` set (stories (seeded_state (Some ''demoplate''))) = {1, 2, 3}
   \<and> log_steps (seeded_state (Some ''demoplate''))
        ((seeded_state (Some ''demoplate''))\<lparr>stories := AList.delete 3 seed_stories\<rparr>)
   \<and> read_entry (stdin (seeded_world (Some ''demoplate'') [''hello'', ''END'']))
        = Some (''hello'' # [], [])
   \<and> next_id (AList.delete 3 seed_stories) = 3
   \<and> (\<exists>entry. stories (hres_state (newlog_command
          ((seeded_state (Some ''demoplate''))\<lparr>stories := AList.delete 3 seed_stories\<rparr>)
          (seeded_world (Some ''demoplate'') [''hello'', ''END''])))
        = AList.update 3 entry (AList.delete 3 seed_stories))"
proof -
  let ?s0 = "seeded_state (Some ''demoplate'')"
  let ?s1 = "?s0\<lparr>stories := AList.delete 3 seed_stories\<rparr>"
  let ?w = "seeded_world (Some ''demoplate'') [''hello'', ''END'']"
  let ?d = "seeded_world (Some ''demoplate'') [''3'']"
  have h1: "\<forall>k\<in>fst ` set (stories ?s0). 0 < k"
    by (simp add: seeded_state_def seed_stories_def)
  have i: "py_int ''3'' = Some 3"
    by (simp add: py_int_def unsigned_value_def is_digit_def digit_val_def digit_chars_def
        str_defs)
  have p: "py_str 3 = ''3''"
    by (simp add: py_str_def str_nat.simps [of 3] digit_chars_def)
  have "deletelog_command ?s0 ?d ''3''
          = Next ?s1 (?d\<lparr>stdin := [], logs_json := Content (AList.delete 3 seed_stories)\<rparr>)"
    by (simp add: deletelog_command_def i p reading_def Let_def saved_def save_logs_def
        save_json_file_def seeded_world_def seeded_state_def seed_stories_def str_defs)
  with steps_start have h2: "log_steps ?s0 ?s1" by (rule steps_deletelog)
  have h3: "read_entry (stdin ?w) = Some (''hello'' # [], [])"
    by (simp add: seeded_world_def str_defs)
  have n: "next_id (AList.delete 3 seed_stories) = 3"
    by (simp add: next_id_def seed_stories_def)
  have k: "fst ` set (stories ?s0) = {1, 2, 3}"
    by (simp add: seeded_state_def seed_stories_def)
  from log_id_allocation [OF h1 h2 h3] n k h2 h3 show ?thesis by simp
qed

end
